theory Spec2Isabelle
  imports Main "HOL-Library.Multiset"
begin

section \<open>JavaScript strings\<close>

text \<open>
  The engine is JavaScript. Its strings are sequences of UTF-16 code units; the model uses
  \<^typ>\<open>string\<close>, whose characters are the code units below 256 (ASCII and Latin-1).
  Every delimiter, prefix and keyword the dispatcher and the parser look for is ASCII.
  The functions below are the built-in string methods the source calls, restricted to
  that range.
\<close>

definition code :: "char \<Rightarrow> nat" where
  "code c = of_char c"

definition dq :: char where
  "dq = CHR 0x22"

definition bslash :: char where
  "bslash = CHR 0x5C"

definition isDigit :: "char \<Rightarrow> bool" where
  "isDigit c = (48 \<le> code c \<and> code c \<le> 57)"

definition isUpper :: "char \<Rightarrow> bool" where
  \<comment> \<open>the code units below 256 that \<open>toLowerCase\<close> changes: A-Z and the Latin-1 capitals\<close>
  "isUpper c = ((65 \<le> code c \<and> code c \<le> 90) \<or> (192 \<le> code c \<and> code c \<le> 222 \<and> code c \<noteq> 215))"

definition toLowerChar :: "char \<Rightarrow> char" where
  \<comment> \<open>adds 32 to the code unit: both ranges have bit 5 clear, so the bit is set\<close>
  "toLowerChar c =
     (if isUpper c then (case c of Char b0 b1 b2 b3 b4 b5 b6 b7 \<Rightarrow> Char b0 b1 b2 b3 b4 True b6 b7)
      else c)"

definition toLowerCase :: "string \<Rightarrow> string" where
  "toLowerCase s = map toLowerChar s"

definition isWordChar :: "char \<Rightarrow> bool" where
  \<comment> \<open>the regular-expression class \<open>\w\<close>\<close>
  "isWordChar c =
     ((48 \<le> code c \<and> code c \<le> 57) \<or> (65 \<le> code c \<and> code c \<le> 90)
      \<or> (97 \<le> code c \<and> code c \<le> 122) \<or> code c = 95)"

definition isSpaceChar :: "char \<Rightarrow> bool" where
  \<comment> \<open>the class \<open>\s\<close>, which is also what \<open>trim\<close> strips: TAB, LF, VT, FF, CR, space, NBSP\<close>
  "isSpaceChar c = ((9 \<le> code c \<and> code c \<le> 13) \<or> code c = 32 \<or> code c = 160)"

definition isLineTerminator :: "char \<Rightarrow> bool" where
  \<comment> \<open>what the regular-expression dot does not match\<close>
  "isLineTerminator c = (code c = 10 \<or> code c = 13)"

definition trim :: "string \<Rightarrow> string" where
  "trim s = rev (dropWhile isSpaceChar (rev (dropWhile isSpaceChar s)))"

definition startsWith :: "string \<Rightarrow> string \<Rightarrow> bool" where
  "startsWith s p = (take (length p) s = p)"

fun includesStr :: "string \<Rightarrow> string \<Rightarrow> bool" where
  "includesStr [] p = (p = [])"
| "includesStr (c # cs) p = (startsWith (c # cs) p \<or> includesStr cs p)"

fun indexOf :: "string \<Rightarrow> char \<Rightarrow> nat option" where
  \<comment> \<open>\<open>None\<close> is JavaScript's -1\<close>
  "indexOf [] x = None"
| "indexOf (c # cs) x = (if c = x then Some 0 else map_option Suc (indexOf cs x))"

fun lastIndexOf :: "string \<Rightarrow> char \<Rightarrow> nat option" where
  "lastIndexOf [] x = None"
| "lastIndexOf (c # cs) x =
     (case lastIndexOf cs x of Some i \<Rightarrow> Some (Suc i) | None \<Rightarrow> if c = x then Some 0 else None)"

definition substring :: "string \<Rightarrow> nat \<Rightarrow> nat \<Rightarrow> string" where
  \<comment> \<open>\<open>s.substring(a, b)\<close> for \<open>a \<le> b\<close>\<close>
  "substring s a b = take (b - a) (drop a s)"

fun split :: "string \<Rightarrow> char \<Rightarrow> string list" where
  \<comment> \<open>\<open>s.split(sep)\<close> for a one-character separator; the empty string gives one empty part\<close>
  "split [] x = [[]]"
| "split (c # cs) x =
     (if c = x then [] # split cs x
      else (case split cs x of p # ps \<Rightarrow> (c # p) # ps | [] \<Rightarrow> [[c]]))"

fun join :: "string list \<Rightarrow> string \<Rightarrow> string" where
  "join [] sep = []"
| "join [x] sep = x"
| "join (x # y # ys) sep = x @ sep @ join (y # ys) sep"

fun digitsOf :: "nat \<Rightarrow> nat \<Rightarrow> string" where
  \<comment> \<open>the decimal digits of a number, most significant first; the first argument bounds the recursion\<close>
  "digitsOf 0 n = []"
| "digitsOf (Suc f) n = (if n < 10 then [char_of (48 + n)] else digitsOf f (n div 10) @ [char_of (48 + n mod 10)])"

definition showNat :: "nat \<Rightarrow> string" where
  "showNat n = digitsOf (Suc n) n"

definition showInt :: "int \<Rightarrow> string" where
  "showInt i = (if i < 0 then CHR ''-'' # showNat (nat (- i)) else showNat (nat i))"

section \<open>JavaScript values\<close>

text \<open>
  What \<open>JSON.parse\<close> returns, what the collaborators hand over and what \<open>generateReply\<close>
  returns are JavaScript values. An object is the list of its own properties in insertion
  order. Numbers are integers.
\<close>

datatype jsval =
    Undefined
  | Null
  | Bool bool
  | Num int
  | Str string
  | Arr "jsval list"
  | Obj "(string \<times> jsval) list"

fun truthy :: "jsval \<Rightarrow> bool" where
  "truthy Undefined = False"
| "truthy Null = False"
| "truthy (Bool b) = b"
| "truthy (Num n) = (n \<noteq> 0)"
| "truthy (Str s) = (s \<noteq> [])"
| "truthy (Arr xs) = True"
| "truthy (Obj fs) = True"

definition orElse :: "jsval \<Rightarrow> jsval \<Rightarrow> jsval" where
  \<comment> \<open>the operator \<open>||\<close>\<close>
  "orElse a b = (if truthy a then a else b)"

fun lookup :: "string \<Rightarrow> (string \<times> jsval) list \<Rightarrow> jsval" where
  "lookup k [] = Undefined"
| "lookup k ((k', v) # fs) = (if k = k' then v else lookup k fs)"

fun getProp :: "jsval \<Rightarrow> string \<Rightarrow> jsval" where
  \<comment> \<open>\<open>v.k\<close> for the property names the source reads (none of them is defined on the
      prototype of an array, a string, a number or a boolean); reading a property of
      \<open>null\<close> or \<open>undefined\<close> raises, which the callers model\<close>
  "getProp (Obj fs) k = lookup k fs"
| "getProp v k = Undefined"

fun setField :: "string \<Rightarrow> jsval \<Rightarrow> (string \<times> jsval) list \<Rightarrow> (string \<times> jsval) list" where
  \<comment> \<open>assignment to a property: an existing key keeps its place\<close>
  "setField k v [] = [(k, v)]"
| "setField k v ((k', v') # fs) = (if k = k' then (k, v) # fs else (k', v') # setField k v fs)"

definition hasKey :: "string \<Rightarrow> (string \<times> jsval) list \<Rightarrow> bool" where
  "hasKey k fs = (k \<in> set (map fst fs))"

definition isNullish :: "jsval \<Rightarrow> bool" where
  "isNullish v = (v = Undefined \<or> v = Null)"

section \<open>JSON.parse and JSON.stringify\<close>

text \<open>
  The two built-ins, for the values above. A number literal with a fraction or an
  exponent and a \<open>\u\<close> escape of a code unit above 255 are outside the modelled range
  and are reported as a parse failure. \<open>JSON_parse\<close> returns \<open>None\<close> where
  \<open>JSON.parse\<close> raises a SyntaxError.
\<close>

definition isJsonSpace :: "char \<Rightarrow> bool" where
  "isJsonSpace c = (code c = 32 \<or> code c = 9 \<or> code c = 10 \<or> code c = 13)"

definition skipWs :: "string \<Rightarrow> string" where
  "skipWs s = dropWhile isJsonSpace s"

definition unescape :: "char \<Rightarrow> char option" where
  "unescape e =
     (if e = dq then Some dq
      else if e = bslash then Some bslash
      else if e = CHR ''/'' then Some (CHR ''/'')
      else if e = CHR ''b'' then Some (CHR 0x08)
      else if e = CHR ''f'' then Some (CHR 0x0C)
      else if e = CHR ''n'' then Some (CHR 0x0A)
      else if e = CHR ''r'' then Some (CHR 0x0D)
      else if e = CHR ''t'' then Some (CHR 0x09)
      else None)"

definition hexVal :: "char \<Rightarrow> nat option" where
  "hexVal c =
     (if 48 \<le> code c \<and> code c \<le> 57 then Some (code c - 48)
      else if 65 \<le> code c \<and> code c \<le> 70 then Some (code c - 55)
      else if 97 \<le> code c \<and> code c \<le> 102 then Some (code c - 87)
      else None)"

definition hexByte :: "char \<Rightarrow> char \<Rightarrow> char \<Rightarrow> char \<Rightarrow> char option" where
  \<comment> \<open>the code unit of \<open>\uXXXX\<close> when it is below 256\<close>
  "hexByte a b c d =
     (case (hexVal a, hexVal b, hexVal c, hexVal d) of
        (Some 0, Some 0, Some x, Some y) \<Rightarrow> Some (char_of (16 * x + y))
      | _ \<Rightarrow> None)"

fun lexString :: "string \<Rightarrow> (string \<times> string) option" where
  \<comment> \<open>the text after an opening quote: the decoded string and what follows the closing quote\<close>
  "lexString [] = None"
| "lexString (c # cs) =
     (if c = dq then Some ([], cs)
      else if c = bslash then
        (case cs of
           [] \<Rightarrow> None
         | e # cs' \<Rightarrow>
             if e = CHR ''u'' then
               (case cs' of
                  h1 # h2 # h3 # h4 # cs'' \<Rightarrow>
                    (case hexByte h1 h2 h3 h4 of
                       None \<Rightarrow> None
                     | Some d \<Rightarrow> map_option (\<lambda>(t, r). (d # t, r)) (lexString cs''))
                | _ \<Rightarrow> None)
             else
               (case unescape e of
                  None \<Rightarrow> None
                | Some d \<Rightarrow> map_option (\<lambda>(t, r). (d # t, r)) (lexString cs')))
      else if code c < 32 then None
      else map_option (\<lambda>(t, r). (c # t, r)) (lexString cs))"

definition digitsValue :: "string \<Rightarrow> int" where
  "digitsValue ds = foldl (\<lambda>a c. 10 * a + int (code c - 48)) 0 ds"

definition lexDigits :: "string \<Rightarrow> (int \<times> string) option" where
  "lexDigits s =
     (let ds = takeWhile isDigit s; r = dropWhile isDigit s in
      if ds = [] then None
      else if length ds > 1 \<and> hd ds = CHR ''0'' then None
      else if r \<noteq> [] \<and> (hd r = CHR ''.'' \<or> hd r = CHR ''e'' \<or> hd r = CHR ''E'') then None
      else Some (digitsValue ds, r))"

definition lexNumber :: "string \<Rightarrow> (jsval \<times> string) option" where
  "lexNumber s =
     (case s of
        [] \<Rightarrow> None
      | c # cs \<Rightarrow>
          if c = CHR ''-'' then map_option (\<lambda>(n, r). (Num (- n), r)) (lexDigits cs)
          else map_option (\<lambda>(n, r). (Num n, r)) (lexDigits s))"

fun parseValue :: "nat \<Rightarrow> string \<Rightarrow> (jsval \<times> string) option"
  and parseElements :: "nat \<Rightarrow> string \<Rightarrow> jsval list \<Rightarrow> (jsval \<times> string) option"
  and parseMembers :: "nat \<Rightarrow> string \<Rightarrow> (string \<times> jsval) list \<Rightarrow> (jsval \<times> string) option"
where
  "parseValue 0 s = None"
| "parseValue (Suc f) s =
     (case skipWs s of
        [] \<Rightarrow> None
      | c # cs \<Rightarrow>
          if c = CHR ''{'' then
            (case skipWs cs of
               [] \<Rightarrow> None
             | d # ds \<Rightarrow> if d = CHR ''}'' then Some (Obj [], ds) else parseMembers f cs [])
          else if c = CHR ''['' then
            (case skipWs cs of
               [] \<Rightarrow> None
             | d # ds \<Rightarrow> if d = CHR '']'' then Some (Arr [], ds) else parseElements f cs [])
          else if c = dq then map_option (\<lambda>(t, r). (Str t, r)) (lexString cs)
          else if startsWith (c # cs) ''true'' then Some (Bool True, drop 4 (c # cs))
          else if startsWith (c # cs) ''false'' then Some (Bool False, drop 5 (c # cs))
          else if startsWith (c # cs) ''null'' then Some (Null, drop 4 (c # cs))
          else lexNumber (c # cs))"
| "parseElements 0 s acc = None"
| "parseElements (Suc f) s acc =
     (case parseValue f s of
        None \<Rightarrow> None
      | Some (v, r) \<Rightarrow>
          (case skipWs r of
             [] \<Rightarrow> None
           | d # ds \<Rightarrow>
               if d = CHR '','' then parseElements f ds (acc @ [v])
               else if d = CHR '']'' then Some (Arr (acc @ [v]), ds)
               else None))"
| "parseMembers 0 s acc = None"
| "parseMembers (Suc f) s acc =
     (case skipWs s of
        [] \<Rightarrow> None
      | d # ds \<Rightarrow>
          if d \<noteq> dq then None
          else
            (case lexString ds of
               None \<Rightarrow> None
             | Some (k, r) \<Rightarrow>
                 (case skipWs r of
                    [] \<Rightarrow> None
                  | e # es \<Rightarrow>
                      if e \<noteq> CHR '':'' then None
                      else
                        (case parseValue f es of
                           None \<Rightarrow> None
                         | Some (v, r') \<Rightarrow>
                             (case skipWs r' of
                                [] \<Rightarrow> None
                              | g # gs \<Rightarrow>
                                  if g = CHR '','' then parseMembers f gs (setField k v acc)
                                  else if g = CHR ''}'' then Some (Obj (setField k v acc), gs)
                                  else None)))))"

definition JSON_parse :: "string \<Rightarrow> jsval option" where
  \<comment> \<open>every call of the parser consumes a character, so twice the length bounds the recursion\<close>
  "JSON_parse s =
     (case parseValue (2 * length s + 2) s of
        None \<Rightarrow> None
      | Some (v, r) \<Rightarrow> if skipWs r = [] then Some v else None)"

definition hexDigit :: "nat \<Rightarrow> char" where
  "hexDigit n = (if n < 10 then char_of (48 + n) else char_of (87 + n))"

definition escapeChar :: "char \<Rightarrow> string" where
  "escapeChar c =
     (if c = dq then [bslash, dq]
      else if c = bslash then [bslash, bslash]
      else if code c = 8 then [bslash, CHR ''b'']
      else if code c = 12 then [bslash, CHR ''f'']
      else if code c = 10 then [bslash, CHR ''n'']
      else if code c = 13 then [bslash, CHR ''r'']
      else if code c = 9 then [bslash, CHR ''t'']
      else if code c < 32 then [bslash, CHR ''u'', CHR ''0'', CHR ''0'', hexDigit (code c div 16), hexDigit (code c mod 16)]
      else [c])"

definition quoteString :: "string \<Rightarrow> string" where
  "quoteString s = dq # concat (map escapeChar s) @ [dq]"

fun stringify :: "jsval \<Rightarrow> string option"
  and stringifyElements :: "jsval list \<Rightarrow> string list"
  and stringifyMembers :: "(string \<times> jsval) list \<Rightarrow> string list"
where
  "stringify Undefined = None"
| "stringify Null = Some ''null''"
| "stringify (Bool b) = Some (if b then ''true'' else ''false'')"
| "stringify (Num n) = Some (showInt n)"
| "stringify (Str s) = Some (quoteString s)"
| "stringify (Arr xs) = Some (''['' @ join (stringifyElements xs) '','' @ '']'')"
| "stringify (Obj fs) = Some (''{'' @ join (stringifyMembers fs) '','' @ ''}'')"
| "stringifyElements [] = []"
| "stringifyElements (x # xs) =
     (case stringify x of None \<Rightarrow> ''null'' | Some t \<Rightarrow> t) # stringifyElements xs"
| "stringifyMembers [] = []"
| "stringifyMembers ((k, v) # fs) =
     (case stringify v of
        None \<Rightarrow> stringifyMembers fs
      | Some t \<Rightarrow> (quoteString k @ '':'' @ t) # stringifyMembers fs)"

definition JSON_stringify :: "jsval \<Rightarrow> string" where
  \<comment> \<open>as it appears inside a template literal or as message content: \<open>undefined\<close> prints as such\<close>
  "JSON_stringify v = (case stringify v of None \<Rightarrow> ''undefined'' | Some t \<Rightarrow> t)"

section \<open>Response cache key\<close>

definition normalizeMessage :: "string \<Rightarrow> string" where
  \<comment> \<open>the message in lower case, without the characters that are neither word characters nor white space nor in U+0980..U+09FF, trimmed; that range
      lies above the code units of the model\<close>
  "normalizeMessage message =
     trim (filter (\<lambda>c. isWordChar c \<or> isSpaceChar c \<or> (0x980 \<le> code c \<and> code c \<le> 0x9FF))
             (toLowerCase message))"

definition getCacheKey :: "string \<Rightarrow> string \<Rightarrow> string \<Rightarrow> string" where
  "getCacheKey pageId message senderName =
     pageId @ '':'' @ senderName @ '':'' @ normalizeMessage message"

section \<open>Response parser\<close>

definition startsWithCI :: "string \<Rightarrow> string \<Rightarrow> bool" where
  \<comment> \<open>a case-insensitive match of a lower-case ASCII pattern at the start of the string\<close>
  "startsWithCI s p = (toLowerCase (take (length p) s) = p)"


fun closeOffset :: "string \<Rightarrow> nat option" where
  \<comment> \<open>where the first \<open></think>\<close> starts\<close>
  "closeOffset [] = None"
| "closeOffset (c # cs) =
     (if startsWithCI (c # cs) ''</think>'' then Some 0 else map_option Suc (closeOffset cs))"

fun stripThink :: "string \<Rightarrow> string" where
  \<comment> \<open>\<open>replace(/<think>[\s\S]*?<\/think>/gi, '')\<close>: every block from an opening tag to the
      nearest closing tag is removed\<close>
  "stripThink [] = []"
| "stripThink (c # cs) =
     (if startsWithCI (c # cs) ''<think>'' then
        (case closeOffset (drop 7 (c # cs)) of
           Some n \<Rightarrow> stripThink (drop (7 + n + 8) (c # cs))
         | None \<Rightarrow> c # stripThink cs)
      else c # stripThink cs)"

fun removeAllCI :: "string \<Rightarrow> string \<Rightarrow> string" where
  \<comment> \<open>\<open>replace(/p/gi, '')\<close> for a literal lower-case pattern\<close>
  "removeAllCI p [] = []"
| "removeAllCI p (c # cs) =
     (if p \<noteq> [] \<and> startsWithCI (c # cs) p then removeAllCI p (drop (length p) (c # cs))
      else c # removeAllCI p cs)"

definition stripFences :: "string \<Rightarrow> string" where
  \<comment> \<open>\<open>replace(/```json/gi, '').replace(/```/g, '')\<close>\<close>
  "stripFences s = removeAllCI ''```'' (removeAllCI ''```json'' s)"

definition isolateObject :: "string \<Rightarrow> string" where
  \<comment> \<open>from the first opening brace to the last closing brace, when they are in that order\<close>
  "isolateObject s =
     (case (indexOf s (CHR ''{''), lastIndexOf s (CHR ''}'')) of
        (Some firstOpen, Some lastClose) \<Rightarrow>
          if lastClose > firstOpen then substring s firstOpen (lastClose + 1) else s
      | _ \<Rightarrow> s)"

definition cleanContent :: "string \<Rightarrow> string" where
  \<comment> \<open>the three cleaning steps of \<open>extractJsonFromAiResponse\<close>\<close>
  "cleanContent rawContent = isolateObject (trim (stripFences (trim (stripThink rawContent))))"

definition extractJsonFromAiResponse :: "string \<Rightarrow> jsval option" where
  \<comment> \<open>\<open>None\<close>: the function raises (the SyntaxError of the second \<open>JSON.parse\<close>)\<close>
  "extractJsonFromAiResponse rawContent =
     (case JSON_parse (cleanContent rawContent) of
        Some v \<Rightarrow> Some v
      | None \<Rightarrow> JSON_parse rawContent)"

fun scanBody :: "string \<Rightarrow> string \<times> string" where
  \<comment> \<open>the longest match of \<open>(?:[^"\\]|\\.)*\<close> and the rest\<close>
  "scanBody [] = ([], [])"
| "scanBody (c # cs) =
     (if c = dq then ([], c # cs)
      else if c = bslash then
        (case cs of
           [] \<Rightarrow> ([], c # cs)
         | e # cs' \<Rightarrow>
             if isLineTerminator e then ([], c # cs)
             else (case scanBody cs' of (b, r) \<Rightarrow> (c # e # b, r)))
      else (case scanBody cs of (b, r) \<Rightarrow> (c # b, r)))"

definition matchReplyAt :: "string \<Rightarrow> string option" where
  \<comment> \<open>\<open>"reply"\s*:\s*"((?:[^"\\]|\\.)*)"\<close> anchored at the start: the captured group\<close>
  "matchReplyAt s =
     (if \<not> startsWith s ([dq] @ ''reply'' @ [dq]) then None
      else
        (case dropWhile isSpaceChar (drop 7 s) of
           [] \<Rightarrow> None
         | c # s2 \<Rightarrow>
             if c \<noteq> CHR '':'' then None
             else
               (case dropWhile isSpaceChar s2 of
                  [] \<Rightarrow> None
                | d # s4 \<Rightarrow>
                    if d \<noteq> dq then None
                    else
                      (case scanBody s4 of
                         (b, []) \<Rightarrow> None
                       | (b, q # r) \<Rightarrow> if q = dq then Some b else None))))"

fun matchReply :: "string \<Rightarrow> string option" where
  \<comment> \<open>the leftmost match\<close>
  "matchReply [] = matchReplyAt []"
| "matchReply (c # cs) =
     (case matchReplyAt (c # cs) of Some b \<Rightarrow> Some b | None \<Rightarrow> matchReply cs)"

definition isNonBlankString :: "jsval \<Rightarrow> bool" where
  \<comment> \<open>\<open>v && typeof v === 'string' && v.trim() !== ''\<close>\<close>
  "isNonBlankString v = (case v of Str t \<Rightarrow> t \<noteq> [] \<and> trim t \<noteq> [] | _ \<Rightarrow> False)"

definition isString :: "jsval \<Rightarrow> bool" where
  "isString v = (case v of Str t \<Rightarrow> True | _ \<Rightarrow> False)"

definition isArray :: "jsval \<Rightarrow> bool" where
  "isArray v = (case v of Arr xs \<Rightarrow> True | _ \<Rightarrow> False)"

definition theString :: "jsval \<Rightarrow> string" where
  "theString v = (case v of Str t \<Rightarrow> t | _ \<Rightarrow> [])"

definition sorryText :: string where
  "sorryText = ''Sorry, something went wrong while processing your request.''"

definition replyOfParsed :: "jsval \<Rightarrow> string option" where
  \<comment> \<open>the body of the \<open>if (parsed && typeof parsed === 'object')\<close> block: \<open>Some\<close> is a return\<close>
  "replyOfParsed parsed =
     (case parsed of
        Obj fs \<Rightarrow>
          if isNonBlankString (lookup ''reply'' fs) then Some (theString (lookup ''reply'' fs))
          else if isNonBlankString (lookup ''text'' fs) then Some (theString (lookup ''text'' fs))
          else if isNonBlankString (lookup ''message'' fs) then Some (theString (lookup ''message'' fs))
          else if (truthy (lookup ''tool'' fs) \<and> isString (lookup ''tool'' fs))
                  \<or> isArray (lookup ''tools'' fs)
                  \<or> (truthy (lookup ''function'' fs) \<and> isString (lookup ''function'' fs))
                  \<or> hasKey ''query'' fs
          then Some sorryText
          else None
      | _ \<Rightarrow> None)"

definition extractReplyFromText :: "string \<Rightarrow> string" where
  "extractReplyFromText text =
     (if text = [] then []
      else
        (case (case JSON_parse text of Some parsed \<Rightarrow> replyOfParsed parsed | None \<Rightarrow> None) of
           Some r \<Rightarrow> r
         | None \<Rightarrow>
             (case matchReply text of
                Some m \<Rightarrow>
                  if m = [] then text
                  else (case JSON_parse ([dq] @ m @ [dq]) of Some (Str t) \<Rightarrow> t | _ \<Rightarrow> m)
              | None \<Rightarrow> text)))"

section \<open>Response cache\<close>



definition CACHE_TTL_MS :: nat where
  "CACHE_TTL_MS = 1000 * 60 * 60"

definition CACHE_SIZE_LIMIT :: nat where
  "CACHE_SIZE_LIMIT = 500"

section \<open>Errors, collaborators and the trace of a request\<close>

text \<open>
  An exception is a value. A function that can raise returns an \<open>outcome\<close>; an \<open>async\<close>
  function settles as \<open>Returned\<close> (the promise resolves) or \<open>Threw\<close> (it rejects).
\<close>

record jsError =
  errName :: string
  errMessage :: string
  errStatus :: "nat option"  \<comment> \<open>\<open>error.status\<close>\<close>
  errResponseStatus :: "nat option"  \<comment> \<open>\<open>error.response.status\<close>, \<open>None\<close> without a response\<close>
  errResponseMessage :: "string option"  \<comment> \<open>\<open>error.response?.data?.error?.message\<close>\<close>

definition mkError :: "string \<Rightarrow> string \<Rightarrow> jsError" where
  "mkError n m =
     \<lparr>errName = n, errMessage = m, errStatus = None, errResponseStatus = None,
      errResponseMessage = None\<rparr>"

definition newError :: "string \<Rightarrow> jsError" where
  "newError m = mkError ''Error'' m"

definition typeError :: jsError where
  "typeError = mkError ''TypeError'' ''Cannot read properties of undefined''"

definition syntaxError :: jsError where
  "syntaxError = mkError ''SyntaxError'' ''Unexpected token in JSON''"

definition referenceError :: "string \<Rightarrow> jsError" where
  "referenceError v = mkError ''ReferenceError'' (v @ '' is not defined'')"

datatype 'a outcome = Ok 'a | Raise jsError

datatype result = Returned jsval | Threw jsError

datatype step = Next | Break | Done result

record message =
  role :: string
  content :: string

record completion =
  choices :: "string list"  \<comment> \<open>\<open>choices[i].message.content || ''\<close>; no \<open>choices\<close> is the empty list\<close>
  total_tokens :: nat  \<comment> \<open>\<open>usage.total_tokens\<close>, 0 when the usage is missing\<close>

record keyData =
  kd_key :: string  \<comment> \<open>\<open>keyData.key\<close>, empty when missing\<close>
  kd_model :: string  \<comment> \<open>\<open>keyData.model\<close>\<close>

record apiReply =
  reply_content :: "string option"  \<comment> \<open>the text an HTTP reply carries, \<open>None\<close> when the path to it is missing\<close>
  reply_usage :: nat  \<comment> \<open>its token count, 0 when missing\<close>

record download =
  data_base64 :: string  \<comment> \<open>\<open>Buffer.from(response.data).toString('base64')\<close>\<close>
  content_type :: "string option"  \<comment> \<open>\<open>response.headers['content-type']\<close>\<close>

datatype callsite = Phase1 | Phase1Requery | Swarm

datatype event =
    OwnApiPost string string "message list"  \<comment> \<open>\<open>axios.post\<close> to the SalesmanChatbot API: bearer key, model, messages\<close>
  | ChatCreate callsite string string string "message list" bool
      \<comment> \<open>\<open>openai.chat.completions.create\<close>: call site, API key, base URL, model, messages, JSON format asked\<close>
  | GetSmartKey string string  \<comment> \<open>\<open>keyService.getSmartKey(provider, model)\<close>\<close>
  | RecordKeyUsage string nat
  | MarkKeyAsQuotaExceeded string
  | MarkKeyAsDead string int string  \<comment> \<open>key, duration in milliseconds, reason\<close>
  | SearchProducts string jsval string  \<comment> \<open>\<open>dbService.searchProducts(user_id, query, page_id)\<close>\<close>
  | HttpGet string "(string \<times> string) list"  \<comment> \<open>\<open>axios.get(url, { headers })\<close>\<close>
  | VisionPost string string string string
      \<comment> \<open>\<open>axios.post\<close> to a vision endpoint: provider, model, API key, prompt\<close>
  | LogDebug string

text \<open>
  The collaborators are outside the repository's two files. Each answers its calls in turn
  from a script held by the world; a call beyond the end of its script fails as a refused
  connection does. The world records every call in \<open>events\<close>. The key service's
  \<open>recordKeyUsage\<close>, \<open>markKeyAsDead\<close> and \<open>markKeyAsQuotaExceeded\<close> are taken not to raise.
\<close>

record world =
  chatReplies :: "completion outcome list"
  smartKeys :: "keyData option outcome list"
  searchResults :: "(string \<times> jsval) list list option outcome list"
  postReplies :: "apiReply outcome list"
  downloads :: "download outcome list"
  randoms :: "nat list"
  events :: "event list"

definition refused :: jsError where
  "refused = newError ''connect ECONNREFUSED''"

definition emit :: "event \<Rightarrow> world \<Rightarrow> world" where
  "emit e w = w\<lparr>events := events w @ [e]\<rparr>"

definition chatCreate ::
  "callsite \<Rightarrow> string \<Rightarrow> string \<Rightarrow> string \<Rightarrow> message list \<Rightarrow> bool \<Rightarrow> world \<Rightarrow> completion outcome \<times> world" where
  "chatCreate site apiKey baseURL model msgs fmt w =
     (let w1 = emit (ChatCreate site apiKey baseURL model msgs fmt) w in
      case chatReplies w1 of
        [] \<Rightarrow> (Raise refused, w1)
      | r # rs \<Rightarrow> (r, w1\<lparr>chatReplies := rs\<rparr>))"

definition getSmartKey :: "string \<Rightarrow> string \<Rightarrow> world \<Rightarrow> keyData option outcome \<times> world" where
  "getSmartKey provider model w =
     (let w1 = emit (GetSmartKey provider model) w in
      case smartKeys w1 of
        [] \<Rightarrow> (Raise refused, w1)
      | r # rs \<Rightarrow> (r, w1\<lparr>smartKeys := rs\<rparr>))"

definition searchProducts ::
  "string \<Rightarrow> jsval \<Rightarrow> string \<Rightarrow> world \<Rightarrow> (string \<times> jsval) list list option outcome \<times> world" where
  "searchProducts userId query pageId w =
     (let w1 = emit (SearchProducts userId query pageId) w in
      case searchResults w1 of
        [] \<Rightarrow> (Raise refused, w1)
      | r # rs \<Rightarrow> (r, w1\<lparr>searchResults := rs\<rparr>))"

definition nextPost :: "event \<Rightarrow> world \<Rightarrow> apiReply outcome \<times> world" where
  "nextPost e w =
     (let w1 = emit e w in
      case postReplies w1 of
        [] \<Rightarrow> (Raise refused, w1)
      | r # rs \<Rightarrow> (r, w1\<lparr>postReplies := rs\<rparr>))"

definition httpGet :: "string \<Rightarrow> (string \<times> string) list \<Rightarrow> world \<Rightarrow> download outcome \<times> world" where
  "httpGet url headers w =
     (let w1 = emit (HttpGet url headers) w in
      case downloads w1 of
        [] \<Rightarrow> (Raise refused, w1)
      | r # rs \<Rightarrow> (r, w1\<lparr>downloads := rs\<rparr>))"

definition recordKeyUsage :: "string \<Rightarrow> nat \<Rightarrow> world \<Rightarrow> world" where
  "recordKeyUsage apiKey tokens w = emit (RecordKeyUsage apiKey tokens) w"

definition markKeyAsQuotaExceeded :: "string \<Rightarrow> world \<Rightarrow> world" where
  "markKeyAsQuotaExceeded apiKey w = emit (MarkKeyAsQuotaExceeded apiKey) w"

definition markKeyAsDead :: "string \<Rightarrow> int \<Rightarrow> string \<Rightarrow> world \<Rightarrow> world" where
  "markKeyAsDead apiKey durationMs reason w = emit (MarkKeyAsDead apiKey durationMs reason) w"

definition logDebug :: "string \<Rightarrow> world \<Rightarrow> world" where
  "logDebug msg w = emit (LogDebug msg) w"

definition nextRandom :: "nat \<Rightarrow> world \<Rightarrow> nat \<times> world" where
  \<comment> \<open>\<open>Math.floor(Math.random() * n)\<close> for \<open>n > 0\<close>: some index below \<open>n\<close>\<close>
  "nextRandom n w =
     (case randoms w of
        [] \<Rightarrow> (0, w)
      | r # rs \<Rightarrow> (r mod n, w\<lparr>randoms := rs\<rparr>))"

section \<open>Page configuration and engine resolution\<close>

record pageConfig =
  page_id :: string
  user_id :: string
  cheap_engine :: "bool option"  \<comment> \<open>\<open>None\<close>: the flag is absent or \<open>null\<close>\<close>
  api_key :: "string option"
  ai :: "string option"
  operator :: "string option"
  chat_model :: "string option"
  chatmodel :: "string option"
  is_external_api :: bool
  page_access_token :: "string option"

record commandConfig =
  cmd_provider :: "string option"
  cmd_chatmodel :: "string option"
  cmd_fallback_chatmodel :: "string option"

definition present :: "string option \<Rightarrow> bool" where
  \<comment> \<open>truthiness of a value that is a string, \<open>null\<close> or \<open>undefined\<close>\<close>
  "present v = (case v of Some s \<Rightarrow> s \<noteq> [] | None \<Rightarrow> False)"

definition orDefault :: "string option \<Rightarrow> string \<Rightarrow> string" where
  \<comment> \<open>\<open>v || d\<close>\<close>
  "orDefault v d = (case v of Some s \<Rightarrow> if s \<noteq> [] then s else d | None \<Rightarrow> d)"

definition useCheapEngine :: "pageConfig \<Rightarrow> bool" where
  \<comment> \<open>\<open>pageConfig.cheap_engine !== false\<close>\<close>
  "useCheapEngine pageConfig = (cheap_engine pageConfig \<noteq> Some False)"

definition MODEL_ALIASES :: "(string \<times> string) list" where
  "MODEL_ALIASES =
     [(''gemini-2.0-flash'', ''gemini-2.5-flash''),
      (''gemini-1.5-flash'', ''gemini-2.5-flash''),
      (''gemini-pro'', ''gemini-2.5-flash''),
      (''gemini2.5-flash'', ''gemini-2.5-flash''),
      (''gemini-2.5-flash-lite'', ''gemini-2.5-flash-lite''),
      (''groq-fast'', ''llama-3.3-70b-versatile''),
      (''groq-speed'', ''llama-3.1-8b-instant''),
      (''grok-4.1-fast'', ''llama-3.3-70b-versatile''),
      (''salesmanchatbot-pro'', ''gemini-2.5-flash''),
      (''salesmanchatbot-flash'', ''gemini-2.5-flash''),
      (''salesmanchatbot-lite'', ''gemini-2.5-flash-lite'')]"

definition dynamicProvider :: "pageConfig \<Rightarrow> commandConfig option \<Rightarrow> string" where
  "dynamicProvider pageConfig cmd =
     (case cmd of
        Some c \<Rightarrow> if useCheapEngine pageConfig then orDefault (cmd_provider c) ''openrouter'' else ''openrouter''
      | None \<Rightarrow> ''openrouter'')"

definition dynamicModel :: "pageConfig \<Rightarrow> commandConfig option \<Rightarrow> string" where
  "dynamicModel pageConfig cmd =
     (case cmd of
        Some c \<Rightarrow>
          if useCheapEngine pageConfig then orDefault (cmd_chatmodel c) ''arcee-ai/trinity-large-preview''
          else ''arcee-ai/trinity-large-preview''
      | None \<Rightarrow> ''arcee-ai/trinity-large-preview'')"

definition userModel :: "pageConfig \<Rightarrow> string \<Rightarrow> string option" where
  \<comment> \<open>the page's own model choice; the second argument is \<open>bestFreeModels.text\<close>\<close>
  "userModel pageConfig bestFreeText =
     (case chat_model pageConfig of
        Some m \<Rightarrow>
          if m \<noteq> [] \<and> m \<noteq> ''default'' then
            (if trim m = ''openrouter/auto'' then Some bestFreeText else Some (trim m))
          else None
      | None \<Rightarrow> None)"

definition defaultProvider :: "pageConfig \<Rightarrow> commandConfig option \<Rightarrow> string" where
  \<comment> \<open>\<open>userProvider || (useCheapEngine ? dynamicProvider : 'gemini')\<close> with
      \<open>userProvider = pageConfig.ai || pageConfig.operator\<close>\<close>
  "defaultProvider pageConfig cmd =
     orDefault (ai pageConfig)
       (orDefault (operator pageConfig)
          (if useCheapEngine pageConfig then dynamicProvider pageConfig cmd else ''gemini''))"

definition defaultModel :: "pageConfig \<Rightarrow> commandConfig option \<Rightarrow> string \<Rightarrow> string" where
  "defaultModel pageConfig cmd bestFreeText =
     (let um = userModel pageConfig bestFreeText;
          provider = defaultProvider pageConfig cmd;
          m1 = (if present um then orDefault um []
                else if provider = ''gemini'' then ''gemini-2.5-flash''
                else if provider = ''openrouter'' then
                  (if useCheapEngine pageConfig then dynamicModel pageConfig cmd
                   else ''arcee-ai/trinity-large-preview'')
                else if provider = ''groq'' then ''llama-3.3-70b-versatile''
                else if provider = ''salesmanchatbot'' then ''salesmanchatbot-pro''
                else (if useCheapEngine pageConfig then dynamicModel pageConfig cmd
                      else ''gemini-2.5-flash''));
          m2 = (if \<not> present um \<and> provider = ''openrouter'' \<and> includesStr m1 ''gemini''
                   \<and> \<not> includesStr m1 '':free''
                then ''arcee-ai/trinity-large-preview'' else m1);
          m3 = (case map_of MODEL_ALIASES m2 of Some a \<Rightarrow> a | None \<Rightarrow> m2)
      in if \<not> present um then ''gemini-2.5-flash'' else m3)"

definition isOurOwnProvider :: "pageConfig \<Rightarrow> commandConfig option \<Rightarrow> bool" where
  "isOurOwnProvider pageConfig cmd =
     (defaultProvider pageConfig cmd = ''salesmanchatbot'' \<or> defaultProvider pageConfig cmd = ''system'')"

definition estimateTokenUsage :: "message list \<Rightarrow> string \<Rightarrow> nat \<Rightarrow> nat" where
  \<comment> \<open>\<open>Math.ceil((inputChars + outputChars) / 4)\<close> unless the provider reported a usage\<close>
  "estimateTokenUsage messages replyText baseUsage =
     (if baseUsage > 0 then baseUsage
      else (sum_list (map (\<lambda>m. length (content m)) messages) + length replyText + 3) div 4)"

section \<open>The dispatcher: generateReply\<close>

text \<open>
  \<open>generateReply\<close> first turns media into text and assembles the prompt; that part has no
  \<open>return\<close> statement. The model starts where the source says
  \<open>UNIFIED AI REQUEST LOGIC\<close> and takes what the first part built as arguments: the
  message sequence \<open>messages\<close> and the tokens already spent, \<open>totalTokenUsage\<close>. The
  command configuration (\<open>None\<close> when the lookup gave nothing or failed) and
  \<open>bestFreeModels.text\<close> are arguments as well.
\<close>

definition responseFormat :: "pageConfig \<Rightarrow> bool" where
  \<comment> \<open>\<open>{ type: "json_object" }\<close>, or \<open>undefined\<close> in external-API mode\<close>
  "responseFormat pageConfig = (\<not> is_external_api pageConfig)"

definition tokenNum :: "nat \<Rightarrow> jsval" where
  "tokenNum n = Num (int n)"

fun indexProps :: "nat \<Rightarrow> jsval list \<Rightarrow> (string \<times> jsval) list" where
  \<comment> \<open>the own properties of an array, from a given index on\<close>
  "indexProps i [] = []"
| "indexProps i (x # xs) = (showNat i, x) # indexProps (Suc i) xs"

definition withReplyFallback :: "jsval \<Rightarrow> (string \<times> jsval) list" where
  \<comment> \<open>\<open>if (!parsed.reply) parsed.reply = parsed.response || parsed.text\<close> followed by the
      spread \<open>...parsed\<close>: the own properties that the response object receives. The
      assignment adds a property to an array and is ignored on a primitive value.\<close>
  "withReplyFallback parsed =
     (case parsed of
        Obj fs \<Rightarrow>
          if truthy (lookup ''reply'' fs) then fs
          else setField ''reply'' (orElse (lookup ''response'' fs) (lookup ''text'' fs)) fs
      | Arr xs \<Rightarrow> indexProps 0 xs @ [(''reply'', Undefined)]
      | Str s \<Rightarrow> indexProps 0 (map (\<lambda>c. Str [c]) s)
      | _ \<Rightarrow> [])"

definition isSearchToolCall :: "jsval \<Rightarrow> bool" where
  \<comment> \<open>\<open>parsed.tool === 'search_products' && parsed.query\<close>\<close>
  "isSearchToolCall parsed =
     (getProp parsed ''tool'' = Str ''search_products'' \<and> truthy (getProp parsed ''query''))"

definition rawTextReply :: "string \<Rightarrow> string" where
  \<comment> \<open>the reply of the inner \<open>catch (e)\<close> blocks\<close>
  "rawTextReply rawContent = extractReplyFromText (trim (stripThink rawContent))"

definition productsJson :: "(string \<times> jsval) list list option \<Rightarrow> jsval" where
  "productsJson products = (case products of None \<Rightarrow> Null | Some rows \<Rightarrow> Arr (map Obj rows))"

subsection \<open>The SalesmanChatbot API path\<close>

definition salesmanModel :: "pageConfig \<Rightarrow> string" where
  "salesmanModel pageConfig = orDefault (chatmodel pageConfig) ''salesmanchatbot-pro''"

definition salesmanChatbotPath :: "pageConfig \<Rightarrow> message list \<Rightarrow> nat \<Rightarrow> world \<Rightarrow> step \<times> world" where
  "salesmanChatbotPath pageConfig messages totalTokenUsage w =
     (case nextPost (OwnApiPost (orDefault (api_key pageConfig) []) (salesmanModel pageConfig) messages) w of
        (Raise error, w1) \<Rightarrow>
          (Done (Returned (Obj
             [(''reply'', Null),
              (''error'', Str (''SalesmanChatbot API Error: '' @ errMessage error @ ''. Check your API key/model.'')),
              (''token_usage'', Num 0),
              (''model'', Str (salesmanModel pageConfig))])), w1)
      | (Ok resp, w1) \<Rightarrow>
          (case reply_content resp of
             Some aiText \<Rightarrow>
               if aiText \<noteq> [] then
                 (Done (Returned (Obj
                    [(''reply'', Str aiText),
                     (''sentiment'', Str ''neutral''),
                     (''token_usage'', tokenNum (reply_usage resp + totalTokenUsage)),
                     (''model'', Str (salesmanModel pageConfig))])), w1)
               else (Next, w1)
           | None \<Rightarrow> (Next, w1)))"

subsection \<open>Phase 1: the user's own keys\<close>

definition userKeys :: "string \<Rightarrow> string list" where
  \<comment> \<open>\<open>api_key.split(',').map(k => k.trim()).filter(k => k)\<close>\<close>
  "userKeys apiKey = filter (\<lambda>k. k \<noteq> []) (map trim (split apiKey (CHR '','')))"

fun shuffleFrom :: "nat \<Rightarrow> string list \<Rightarrow> world \<Rightarrow> string list \<times> world" where
  \<comment> \<open>\<open>for (let i = ...; i > 0; i--)\<close>: swap position \<open>i\<close> with a random position up to \<open>i\<close>\<close>
  "shuffleFrom 0 keys w = (keys, w)"
| "shuffleFrom (Suc i) keys w =
     (case nextRandom (Suc i + 1) w of
        (j, w1) \<Rightarrow> shuffleFrom i (keys[Suc i := keys ! j, j := keys ! Suc i]) w1)"

definition shuffle :: "string list \<Rightarrow> world \<Rightarrow> string list \<times> world" where
  "shuffle keys w = shuffleFrom (length keys - 1) keys w"

definition inferProvider :: "string \<Rightarrow> string \<Rightarrow> string" where
  "inferProvider currentKey provider =
     (if startsWith currentKey ''sk-or-v1'' then ''openrouter''
      else if startsWith currentKey ''AIzaSy'' then ''google''
      else if startsWith currentKey ''gsk_'' then ''groq''
      else if startsWith currentKey ''xai-'' then ''xai''
      else provider)"

definition baseURLOf :: "string \<Rightarrow> string" where
  "baseURLOf currentProvider =
     (if includesStr currentProvider ''openrouter'' then ''https://openrouter.ai/api/v1''
      else if includesStr currentProvider ''openai'' then ''https://api.openai.com/v1''
      else if includesStr currentProvider ''groq'' then ''https://api.groq.com/openai/v1''
      else if includesStr currentProvider ''xai'' then ''https://api.x.ai/v1''
      else ''https://generativelanguage.googleapis.com/v1beta/openai/'')"

definition phase1Response :: "jsval \<Rightarrow> nat \<Rightarrow> string \<Rightarrow> jsval" where
  \<comment> \<open>\<open>{ ...parsed, token_usage: n, model: modelToUse }\<close>\<close>
  "phase1Response parsed n modelToUse =
     Obj (setField ''model'' (Str modelToUse)
            (setField ''token_usage'' (tokenNum n) (withReplyFallback parsed)))"

definition searchResultsMessage :: "(string \<times> jsval) list list option \<Rightarrow> message" where
  "searchResultsMessage products =
     \<lparr>role = ''system'',
      content = ''[System] Search Results: '' @ JSON_stringify (productsJson products)
        @ ''. Now answer the user in Bengali. IMPORTANT: If a product has an ''
        @ [CHR 0x27] @ ''image_url'' @ [CHR 0x27] @ '', you MUST include it in the ''
        @ [CHR 0x27] @ ''images'' @ [CHR 0x27] @ '' array of your JSON response.''\<rparr>"

definition phase1Requery ::
  "pageConfig \<Rightarrow> message list \<Rightarrow> nat \<Rightarrow> string \<Rightarrow> string \<Rightarrow> string \<Rightarrow> jsval \<Rightarrow> nat \<Rightarrow> world
     \<Rightarrow> jsval outcome \<times> world" where
  \<comment> \<open>the tool-call block of Phase 1; \<open>Raise\<close> lands in the inner \<open>catch (e)\<close>\<close>
  "phase1Requery pageConfig messages totalTokenUsage currentKey baseURL modelToUse parsed tokenUsage w =
     (case searchProducts (user_id pageConfig) (getProp parsed ''query'') (page_id pageConfig) w of
        (Raise e, w1) \<Rightarrow> (Raise e, w1)
      | (Ok products, w1) \<Rightarrow>
          (let messages2 = messages @ [\<lparr>role = ''assistant'', content = JSON_stringify parsed\<rparr>,
                                       searchResultsMessage products] in
           case chatCreate Phase1Requery currentKey baseURL modelToUse messages2 True w1 of
             (Raise e, w2) \<Rightarrow> (Raise e, w2)
           | (Ok completion2, w2) \<Rightarrow>
               (case choices completion2 of
                  [] \<Rightarrow> (Raise typeError, w2)
                | rawContent2 # _ \<Rightarrow>
                    (let tokenUsage2 = estimateTokenUsage messages2 rawContent2 (total_tokens completion2);
                         w3 = recordKeyUsage currentKey tokenUsage2 w2 in
                     case extractJsonFromAiResponse rawContent2 of
                       None \<Rightarrow> (Raise syntaxError, w3)
                     | Some parsed2 \<Rightarrow>
                         if isNullish parsed2 then (Raise typeError, w3)
                         else (Ok (phase1Response parsed2 (tokenUsage + tokenUsage2 + totalTokenUsage) modelToUse),
                               w3)))))"

definition phase1Parse ::
  "pageConfig \<Rightarrow> message list \<Rightarrow> nat \<Rightarrow> string \<Rightarrow> string \<Rightarrow> string \<Rightarrow> string \<Rightarrow> nat \<Rightarrow> world
     \<Rightarrow> jsval outcome \<times> world" where
  \<comment> \<open>the inner \<open>try\<close> block of Phase 1\<close>
  "phase1Parse pageConfig messages totalTokenUsage currentKey baseURL modelToUse rawContent tokenUsage w =
     (case extractJsonFromAiResponse rawContent of
        None \<Rightarrow> (Raise syntaxError, w)
      | Some parsed \<Rightarrow>
          if isNullish parsed then (Raise typeError, w)
          else if isSearchToolCall parsed then
            phase1Requery pageConfig messages totalTokenUsage currentKey baseURL modelToUse parsed tokenUsage w
          else (Ok (phase1Response parsed (tokenUsage + totalTokenUsage) modelToUse), w))"

definition phase1Failure :: "jsError \<Rightarrow> result" where
  \<comment> \<open>the outer \<open>catch (error)\<close> block builds
      \<open>{ reply: null, error: `AI Provider Error: ...`, token_usage: 0, model: modelToUse }\<close>;
      \<open>modelToUse\<close> is declared with \<open>let\<close> inside the \<open>try\<close> block and no enclosing scope
      declares it, so evaluating the object literal raises a ReferenceError and nothing is
      returned\<close>
  "phase1Failure error = Threw (referenceError ''modelToUse'')"

definition phase1Attempt ::
  "pageConfig \<Rightarrow> commandConfig option \<Rightarrow> string \<Rightarrow> message list \<Rightarrow> nat \<Rightarrow> string \<Rightarrow> world \<Rightarrow> step \<times> world" where
  \<comment> \<open>the body of \<open>for (const currentKey of userKeys)\<close>\<close>
  "phase1Attempt pageConfig cmd bestFreeText messages totalTokenUsage currentKey w =
     (let currentProvider = inferProvider currentKey (defaultProvider pageConfig cmd);
          baseURL = baseURLOf currentProvider;
          modelToUse = orDefault (chatmodel pageConfig) (defaultModel pageConfig cmd bestFreeText) in
      case chatCreate Phase1 currentKey baseURL modelToUse messages (responseFormat pageConfig) w of
        (Raise error, w1) \<Rightarrow> (Done (phase1Failure error), w1)
      | (Ok completion, w1) \<Rightarrow>
          (case choices completion of
             [] \<Rightarrow> (Next, w1)
           | rawContent # _ \<Rightarrow>
               (let tokenUsage = estimateTokenUsage messages rawContent (total_tokens completion);
                    w2 = recordKeyUsage currentKey tokenUsage w1 in
                case phase1Parse pageConfig messages totalTokenUsage currentKey baseURL modelToUse
                       rawContent tokenUsage w2 of
                  (Ok response, w3) \<Rightarrow> (Done (Returned response), w3)
                | (Raise e, w3) \<Rightarrow>
                    (Done (Returned (Obj
                       [(''reply'', Str (rawTextReply rawContent)),
                        (''sentiment'', Str ''neutral''),
                        (''model'', Str modelToUse),
                        (''token_usage'', tokenNum (tokenUsage + totalTokenUsage))])), w3))))"

fun phase1Loop ::
  "pageConfig \<Rightarrow> commandConfig option \<Rightarrow> string \<Rightarrow> message list \<Rightarrow> nat \<Rightarrow> string list \<Rightarrow> world \<Rightarrow> step \<times> world" where
  "phase1Loop pageConfig cmd bestFreeText messages totalTokenUsage [] w = (Next, w)"
| "phase1Loop pageConfig cmd bestFreeText messages totalTokenUsage (currentKey # rest) w =
     (case phase1Attempt pageConfig cmd bestFreeText messages totalTokenUsage currentKey w of
        (Next, w1) \<Rightarrow> phase1Loop pageConfig cmd bestFreeText messages totalTokenUsage rest w1
      | (s, w1) \<Rightarrow> (s, w1))"

definition enterPhase1 :: "pageConfig \<Rightarrow> commandConfig option \<Rightarrow> bool" where
  \<comment> \<open>\<open>!useCheapEngine && !isOurOwnProvider && pageConfig.api_key
      && pageConfig.api_key !== 'MANAGED_SECRET_KEY'\<close>\<close>
  "enterPhase1 pageConfig cmd =
     (\<not> useCheapEngine pageConfig \<and> \<not> isOurOwnProvider pageConfig cmd \<and> present (api_key pageConfig)
      \<and> api_key pageConfig \<noteq> Some ''MANAGED_SECRET_KEY'')"

definition isolationError :: "pageConfig \<Rightarrow> commandConfig option \<Rightarrow> string \<Rightarrow> jsval" where
  \<comment> \<open>what \<open>if (userKeyAttempted)\<close> returns\<close>
  "isolationError pageConfig cmd bestFreeText =
     Obj [(''reply'', Null),
          (''error'', Str ''Your API Provider settings are incorrect or the key has expired. Please check your dashboard.''),
          (''token_usage'', Num 0),
          (''model'', Str (defaultModel pageConfig cmd bestFreeText))]"

subsection \<open>Quarantine of a pooled key\<close>

definition statusOf :: "jsError \<Rightarrow> nat option" where
  \<comment> \<open>\<open>error.status || (error.response ? error.response.status : null)\<close>\<close>
  "statusOf error =
     (case errStatus error of
        Some n \<Rightarrow> if n \<noteq> 0 then Some n else errResponseStatus error
      | None \<Rightarrow> errResponseStatus error)"

definition handleAiError :: "jsError \<Rightarrow> string \<Rightarrow> string \<Rightarrow> world \<Rightarrow> world" where
  "handleAiError error apiKey modelName w =
     (if statusOf error = Some 429 \<or> includesStr (errMessage error) ''429''
         \<or> includesStr (errMessage error) ''quota''
         \<or> includesStr (errMessage error) ''Too Many Requests''
      then
        (if includesStr (toLowerCase (errMessage error)) ''quota'' then markKeyAsQuotaExceeded apiKey w
         else markKeyAsDead apiKey (60 * 1000) (''rate_limit_'' @ modelName) w)
      else if statusOf error = Some 401 \<or> statusOf error = Some 403 then
        markKeyAsDead apiKey (24 * 60 * 60 * 1000) ''auth_error'' w
      else if (case statusOf error of Some n \<Rightarrow> n \<ge> 500 | None \<Rightarrow> False) then
        markKeyAsDead apiKey (60 * 1000) ''server_error'' w
      else w)"

subsection \<open>Phase 2: the managed swarm\<close>

fun toText :: "jsval \<Rightarrow> string"
  and elementsText :: "jsval list \<Rightarrow> string list"
where
  \<comment> \<open>a value inside a template literal\<close>
  "toText Undefined = ''undefined''"
| "toText Null = ''null''"
| "toText (Bool b) = (if b then ''true'' else ''false'')"
| "toText (Num n) = showInt n"
| "toText (Str s) = s"
| "toText (Arr xs) = join (elementsText xs) '',''"
| "toText (Obj fs) = ''[object Object]''"
| "elementsText [] = []"
| "elementsText (x # xs) = (if isNullish x then [] else toText x) # elementsText xs"

fun collapseSpaces :: "bool \<Rightarrow> string \<Rightarrow> string" where
  \<comment> \<open>\<open>replace(/\s+/g, ' ')\<close>; the flag says that the previous character was white space\<close>
  "collapseSpaces inRun [] = []"
| "collapseSpaces inRun (c # cs) =
     (if isSpaceChar c then (if inRun then collapseSpaces True cs else CHR '' '' # collapseSpaces True cs)
      else c # collapseSpaces False cs)"

text \<open>
  The three Bengali labels of the product listing lie above the code units of the model;
  they are carried as their UTF-8 bytes.
\<close>

definition priceLabel :: string where
  "priceLabel = [CHR 0xE0, CHR 0xA6, CHR 0xA6, CHR 0xE0, CHR 0xA6, CHR 0xBE, CHR 0xE0, CHR 0xA6, CHR 0xAE]"

definition noPriceLabel :: string where
  "noPriceLabel =
     [CHR 0xE0, CHR 0xA6, CHR 0xA6, CHR 0xE0, CHR 0xA6, CHR 0xBE, CHR 0xE0, CHR 0xA6, CHR 0xAE, CHR 0x20,
      CHR 0xE0, CHR 0xA6, CHR 0xA6, CHR 0xE0, CHR 0xA7, CHR 0x87, CHR 0xE0, CHR 0xA6, CHR 0x93,
      CHR 0xE0, CHR 0xA6, CHR 0xAF, CHR 0xE0, CHR 0xA6, CHR 0xBC, CHR 0xE0, CHR 0xA6, CHR 0xBE, CHR 0x20,
      CHR 0xE0, CHR 0xA6, CHR 0xA8, CHR 0xE0, CHR 0xA7, CHR 0x87, CHR 0xE0, CHR 0xA6, CHR 0x87]"

definition descriptionLabel :: string where
  "descriptionLabel =
     [CHR 0xE0, CHR 0xA6, CHR 0xAC, CHR 0xE0, CHR 0xA6, CHR 0xBF, CHR 0xE0, CHR 0xA6, CHR 0xAC,
      CHR 0xE0, CHR 0xA6, CHR 0xB0, CHR 0xE0, CHR 0xA6, CHR 0xA3]"

definition productLine :: "nat \<Rightarrow> (string \<times> jsval) list \<Rightarrow> string option" where
  \<comment> \<open>one line of the listing; \<open>None\<close>: a description that is not a string has no
      \<open>replace\<close> method and the callback raises a TypeError\<close>
  "productLine idx p =
     (let name = orElse (lookup ''name'' p) (Str ''Unnamed Product'');
          priceText = (if truthy (lookup ''price'' p)
                       then toText (lookup ''price'' p) @ '' '' @ toText (orElse (lookup ''currency'' p) (Str ''BDT''))
                       else noPriceLabel);
          line = (\<lambda>descText.
                   ''Item '' @ showNat (idx + 1) @ '': '' @ toText name @ ''. '' @ priceLabel @ '': ''
                   @ priceText @ ''.''
                   @ (if descText \<noteq> [] then '' '' @ descriptionLabel @ '': '' @ descText else [])) in
      if truthy (lookup ''description'' p) then
        (case lookup ''description'' p of
           Str d \<Rightarrow> Some (line (take 120 (collapseSpaces False d)))
         | _ \<Rightarrow> None)
      else Some (line []))"

fun productLines :: "nat \<Rightarrow> (string \<times> jsval) list list \<Rightarrow> string list option" where
  "productLines idx [] = Some []"
| "productLines idx (p # ps) =
     (case productLine idx p of
        None \<Rightarrow> None
      | Some l \<Rightarrow> map_option ((#) l) (productLines (Suc idx) ps))"

definition productImages :: "(string \<times> jsval) list list \<Rightarrow> jsval" where
  "productImages products =
     Arr (map (\<lambda>p. Obj [(''url'', lookup ''image_url'' p),
                        (''title'', orElse (lookup ''name'' p) (Str ''Product Image''))])
            (filter (\<lambda>p. truthy (lookup ''image_url'' p) \<and> isString (lookup ''image_url'' p)) products))"

definition swarmResponse :: "jsval \<Rightarrow> nat \<Rightarrow> jsval" where
  \<comment> \<open>\<open>{ ...parsed, model: 'gemini-2.5-flash', token_usage: n }\<close>\<close>
  "swarmResponse parsed n =
     Obj (setField ''token_usage'' (tokenNum n)
            (setField ''model'' (Str ''gemini-2.5-flash'') (withReplyFallback parsed)))"

definition swarmParse ::
  "pageConfig \<Rightarrow> nat \<Rightarrow> string \<Rightarrow> nat \<Rightarrow> world \<Rightarrow> jsval outcome \<times> world" where
  \<comment> \<open>the inner \<open>try\<close> block of a swarm attempt\<close>
  "swarmParse pageConfig totalTokenUsage rawContent tokenUsage w =
     (case extractJsonFromAiResponse rawContent of
        None \<Rightarrow> (Raise syntaxError, w)
      | Some parsed \<Rightarrow>
          if isNullish parsed then (Raise typeError, w)
          else if isSearchToolCall parsed then
            (case searchProducts (user_id pageConfig) (getProp parsed ''query'') (page_id pageConfig) w of
               (Raise e, w1) \<Rightarrow> (Raise e, w1)
             | (Ok None, w1) \<Rightarrow> (Ok (swarmResponse parsed (tokenUsage + totalTokenUsage)), w1)
             | (Ok (Some products), w1) \<Rightarrow>
                 if products \<noteq> [] then
                   (case productLines 0 products of
                      None \<Rightarrow> (Raise typeError, w1)
                    | Some lines \<Rightarrow>
                        (Ok (Obj [(''reply'', Str (join lines ('' '' @ [CHR 0x0A]))),
                                  (''images'', productImages products),
                                  (''sentiment'', Str ''pos''),
                                  (''dm_message'', Null),
                                  (''bad_words'', Null),
                                  (''order_details'', Null),
                                  (''model'', Str ''gemini-2.5-flash''),
                                  (''token_usage'', tokenNum (tokenUsage + totalTokenUsage))]), w1))
                 else (Ok (swarmResponse parsed (tokenUsage + totalTokenUsage)), w1))
          else (Ok (swarmResponse parsed (tokenUsage + totalTokenUsage)), w))"

definition swarmAttempt :: "pageConfig \<Rightarrow> message list \<Rightarrow> nat \<Rightarrow> world \<Rightarrow> step \<times> world" where
  \<comment> \<open>the body of \<open>for (let i = 0; i < 3; i++)\<close>. A failed call goes on to the next round
      after \<open>handleAiError\<close>, with the \<open>continue\<close> of a 401 or 403 and without it alike.\<close>
  "swarmAttempt pageConfig messages totalTokenUsage w =
     (case getSmartKey ''google'' ''gemini-2.5-flash'' w of
        (Raise setupError, w1) \<Rightarrow> (Next, w1)
      | (Ok None, w1) \<Rightarrow> (Break, w1)
      | (Ok (Some keyData), w1) \<Rightarrow>
          if kd_key keyData = [] \<or> kd_model keyData \<noteq> ''gemini-2.5-flash'' then (Break, w1)
          else
            (let apiKey = kd_key keyData;
                 baseURL = ''https://generativelanguage.googleapis.com/v1beta/openai/'' in
             case chatCreate Swarm apiKey baseURL ''gemini-2.5-flash'' messages (responseFormat pageConfig) w1 of
               (Raise flashError, w2) \<Rightarrow> (Next, handleAiError flashError apiKey ''gemini-2.5-flash'' w2)
             | (Ok completion, w2) \<Rightarrow>
                 (case choices completion of
                    [] \<Rightarrow> (Next, handleAiError typeError apiKey ''gemini-2.5-flash'' w2)
                  | rawContent # _ \<Rightarrow>
                      (let tokenUsage = estimateTokenUsage messages rawContent (total_tokens completion);
                           w3 = recordKeyUsage apiKey tokenUsage w2 in
                       case swarmParse pageConfig totalTokenUsage rawContent tokenUsage w3 of
                         (Ok response, w4) \<Rightarrow> (Done (Returned response), w4)
                       | (Raise e, w4) \<Rightarrow>
                           (Done (Returned (Obj
                              [(''reply'', Str (rawTextReply rawContent)),
                               (''sentiment'', Str ''neutral''),
                               (''model'', Str ''gemini-2.5-flash''),
                               (''token_usage'', tokenNum (tokenUsage + totalTokenUsage))])), w4)))))"

fun swarmLoop :: "nat \<Rightarrow> pageConfig \<Rightarrow> message list \<Rightarrow> nat \<Rightarrow> world \<Rightarrow> result \<times> world" where
  \<comment> \<open>the loop with the given number of rounds left; after the loop \<open>return null\<close>\<close>
  "swarmLoop 0 pageConfig messages totalTokenUsage w = (Returned Null, w)"
| "swarmLoop (Suc n) pageConfig messages totalTokenUsage w =
     (case swarmAttempt pageConfig messages totalTokenUsage w of
        (Next, w1) \<Rightarrow> swarmLoop n pageConfig messages totalTokenUsage w1
      | (Break, w1) \<Rightarrow> (Returned Null, w1)
      | (Done r, w1) \<Rightarrow> (r, w1))"

subsection \<open>The dispatcher\<close>

definition phase1 ::
  "pageConfig \<Rightarrow> commandConfig option \<Rightarrow> string \<Rightarrow> message list \<Rightarrow> nat \<Rightarrow> world \<Rightarrow> result \<times> world" where
  \<comment> \<open>the Phase-1 block and the \<open>if (userKeyAttempted)\<close> return behind it\<close>
  "phase1 pageConfig cmd bestFreeText messages totalTokenUsage w =
     (case shuffle (userKeys (orDefault (api_key pageConfig) [])) w of
        (keys, w1) \<Rightarrow>
          (case phase1Loop pageConfig cmd bestFreeText messages totalTokenUsage keys w1 of
             (Done r, w2) \<Rightarrow> (r, w2)
           | (_, w2) \<Rightarrow> (Returned (isolationError pageConfig cmd bestFreeText), w2)))"

definition generateReply ::
  "pageConfig \<Rightarrow> commandConfig option \<Rightarrow> string \<Rightarrow> message list \<Rightarrow> nat \<Rightarrow> world \<Rightarrow> result \<times> world" where
  "generateReply pageConfig cmd bestFreeText messages totalTokenUsage w =
     (case (if \<not> useCheapEngine pageConfig \<and> defaultProvider pageConfig cmd = ''salesmanchatbot''
               \<and> present (api_key pageConfig)
            then salesmanChatbotPath pageConfig messages totalTokenUsage w
            else (Next, w)) of
        (Done r, w1) \<Rightarrow> (r, w1)
      | (_, w1) \<Rightarrow>
          if enterPhase1 pageConfig cmd then phase1 pageConfig cmd bestFreeText messages totalTokenUsage w1
          else swarmLoop 3 pageConfig messages totalTokenUsage w1)"

section \<open>The vision chain: processImageWithVision\<close>

record environment =
  WAHA_BASE_URL :: string  \<comment> \<open>\<open>process.env.WAHA_BASE_URL\<close> or its default\<close>
  WAHA_API_KEY :: string  \<comment> \<open>\<open>process.env.WAHA_API_KEY\<close> or its default\<close>

record visionOptions =
  opt_prompt :: "string option"
  opt_provider :: "string option"
  opt_model :: "string option"

definition mimeAfterColon :: "string \<Rightarrow> string option" where
  \<comment> \<open>\<open>(.*?);\<close>: the shortest run up to a semicolon, within one line\<close>
  "mimeAfterColon s =
     (case dropWhile (\<lambda>c. c \<noteq> CHR '';'' \<and> \<not> isLineTerminator c) s of
        [] \<Rightarrow> None
      | c # _ \<Rightarrow>
          if c = CHR '';'' then Some (takeWhile (\<lambda>c. c \<noteq> CHR '';'' \<and> \<not> isLineTerminator c) s)
          else None)"

fun mimeMatch :: "string \<Rightarrow> string option" where
  \<comment> \<open>\<open>match(/:(.*?);/)\<close>: the captured group of the leftmost match\<close>
  "mimeMatch [] = None"
| "mimeMatch (c # cs) =
     (if c = CHR '':'' then (case mimeAfterColon cs of Some m \<Rightarrow> Some m | None \<Rightarrow> mimeMatch cs)
      else mimeMatch cs)"

definition downloadHeaders :: "environment \<Rightarrow> string \<Rightarrow> pageConfig \<Rightarrow> (string \<times> string) list" where
  "downloadHeaders env imageUrl pageConfig =
     (if includesStr imageUrl (WAHA_BASE_URL env) \<or> includesStr imageUrl ''wahubbd.salesmanchatbot.online''
      then [(''User-Agent'', ''Mozilla/5.0''), (''X-Api-Key'', WAHA_API_KEY env)]
      else if includesStr imageUrl ''graph.facebook.com'' \<and> present (page_access_token pageConfig)
      then [(''User-Agent'', ''Mozilla/5.0''),
            (''Authorization'', ''Bearer '' @ orDefault (page_access_token pageConfig) [])]
      else [(''User-Agent'', ''Mozilla/5.0'')])"

definition preprocessImage ::
  "environment \<Rightarrow> string \<Rightarrow> pageConfig \<Rightarrow> world \<Rightarrow> (string \<times> string) outcome \<times> world" where
  \<comment> \<open>step 0, the first \<open>try\<close> block: the image as base64 text and its MIME type\<close>
  "preprocessImage env imageUrl pageConfig w =
     (if startsWith imageUrl ''data:'' then
        (case split imageUrl (CHR '','') of
           p0 # p1 # ps \<Rightarrow>
             (Ok (filter (\<lambda>c. \<not> isSpaceChar c) (join (p1 # ps) '',''),
                  (case mimeMatch p0 of Some m \<Rightarrow> m | None \<Rightarrow> ''image/jpeg'')), w)
         | _ \<Rightarrow> (Raise (newError ''Invalid Data URI format (missing comma)''), w))
      else
        (case httpGet imageUrl (downloadHeaders env imageUrl pageConfig) w of
           (Raise e, w1) \<Rightarrow> (Raise e, w1)
         | (Ok d, w1) \<Rightarrow>
             (let mimeType = orDefault (content_type d) ''image/jpeg'' in
              (Ok (data_base64 d, mimeType),
               logDebug (''[Vision] Image Downloaded. Mime: '' @ mimeType @ '', Size: ''
                         @ showNat (length (data_base64 d))) w1))))"

record stage =
  st_provider :: string
  st_model :: string
  st_defaultKey :: bool  \<comment> \<open>whether the stage asks the pool for the provider's \<open>default\<close> key next\<close>
  st_noKey :: string
  st_empty :: string
  st_label :: string
  st_errorLog :: string
  st_successLog :: string

definition priorityStage :: "string \<Rightarrow> stage" where
  "priorityStage model =
     \<lparr>st_provider = ''openrouter'', st_model = model, st_defaultKey = True,
      st_noKey = ''No Key found for OpenRouter'', st_empty = ''Empty response from OpenRouter'',
      st_label = ''Priority OpenRouter'', st_errorLog = ''[Vision] Priority Error: '',
      st_successLog = ''[Vision] Success with Priority ''\<rparr>"

definition attempt1 :: stage where
  "attempt1 =
     \<lparr>st_provider = ''google'', st_model = ''gemini-2.5-flash'', st_defaultKey = False,
      st_noKey = ''No Key found for Gemini 2.5 Flash'', st_empty = ''Empty response from Gemini'',
      st_label = ''Gemini 2.5 Flash'', st_errorLog = ''[Vision] Error 1: '',
      st_successLog = ''[Vision] Success with ''\<rparr>"

definition attempt2 :: stage where
  "attempt2 =
     \<lparr>st_provider = ''google'', st_model = ''gemini-2.5-flash-lite'', st_defaultKey = False,
      st_noKey = ''No Key found for Gemini 2.5 Flash Lite'', st_empty = ''Empty response from Gemini Lite'',
      st_label = ''Gemini 2.5 Flash Lite'', st_errorLog = ''[Vision] Error 2: '',
      st_successLog = ''[Vision] Success with ''\<rparr>"

definition attempt3 :: stage where
  "attempt3 =
     \<lparr>st_provider = ''openrouter'', st_model = ''qwen/qwen-2.5-vl-7b-instruct:free'', st_defaultKey = True,
      st_noKey = ''No Key found for OpenRouter'', st_empty = ''Empty response from OpenRouter'',
      st_label = ''OpenRouter Qwen'', st_errorLog = ''[Vision] Error 3: '',
      st_successLog = ''[Vision] Success with ''\<rparr>"

definition usableKey :: "keyData option \<Rightarrow> string option" where
  \<comment> \<open>\<open>keyData.key\<close> unless \<open>!keyData || !keyData.key\<close>\<close>
  "usableKey keyData =
     (case keyData of Some k \<Rightarrow> if kd_key k \<noteq> [] then Some (kd_key k) else None | None \<Rightarrow> None)"

definition stageKey :: "stage \<Rightarrow> world \<Rightarrow> string outcome \<times> world" where
  "stageKey st w =
     (case getSmartKey (st_provider st) (st_model st) w of
        (Raise e, w1) \<Rightarrow> (Raise e, w1)
      | (Ok keyData, w1) \<Rightarrow>
          (case usableKey keyData of
             Some apiKey \<Rightarrow> (Ok apiKey, w1)
           | None \<Rightarrow>
               if st_defaultKey st then
                 (case getSmartKey (st_provider st) ''default'' w1 of
                    (Raise e, w2) \<Rightarrow> (Raise e, w2)
                  | (Ok keyData2, w2) \<Rightarrow>
                      (case usableKey keyData2 of
                         Some apiKey \<Rightarrow> (Ok apiKey, w2)
                       | None \<Rightarrow> (Raise (newError (st_noKey st)), w2)))
               else (Raise (newError (st_noKey st)), w1)))"

definition runStage :: "stage \<Rightarrow> string \<Rightarrow> world \<Rightarrow> jsval outcome \<times> world" where
  \<comment> \<open>the \<open>try\<close> block of one stage\<close>
  "runStage st systemPrompt w =
     (case stageKey st w of
        (Raise e, w1) \<Rightarrow> (Raise e, w1)
      | (Ok apiKey, w1) \<Rightarrow>
          (case nextPost (VisionPost (st_provider st) (st_model st) apiKey systemPrompt) w1 of
             (Raise e, w2) \<Rightarrow> (Raise e, w2)
           | (Ok r, w2) \<Rightarrow>
               (case reply_content r of
                  None \<Rightarrow> (Raise (newError (st_empty st)), w2)
                | Some text \<Rightarrow>
                    if text = [] then (Raise (newError (st_empty st)), w2)
                    else
                      (Ok (Obj [(''text'', Str text), (''usage'', tokenNum (reply_usage r))]),
                       logDebug (st_successLog st @ st_model st @ '': '' @ take 30 text @ ''... Usage: ''
                                 @ showNat (reply_usage r)) w2))))"

definition errMsgOf :: "jsError \<Rightarrow> string" where
  \<comment> \<open>\<open>error.response?.data?.error?.message || error.message\<close>\<close>
  "errMsgOf e = orDefault (errResponseMessage e) (errMessage e)"

definition unavailable :: jsval where
  "unavailable =
     Obj [(''text'', Str ''Image found but analysis unavailable due to technical errors.''), (''usage'', Num 0)]"

fun runStages :: "stage list \<Rightarrow> string \<Rightarrow> string list \<Rightarrow> world \<Rightarrow> jsval \<times> world" where
  \<comment> \<open>the stages in order, with the \<open>errors\<close> array collected so far; each \<open>catch\<close> block
      pushes one entry and goes on\<close>
  "runStages [] systemPrompt errors w =
     (unavailable,
      logDebug (''[Vision] FATAL: '' @ ''Image Analysis Failed. Reasons: '' @ join errors '' | '') w)"
| "runStages (st # rest) systemPrompt errors w =
     (case runStage st systemPrompt w of
        (Ok v, w1) \<Rightarrow> (v, w1)
      | (Raise e, w1) \<Rightarrow>
          runStages rest systemPrompt (errors @ [st_label st @ '': '' @ errMsgOf e])
            (logDebug (st_errorLog st @ errMsgOf e) w1))"

definition visionStages :: "visionOptions option \<Rightarrow> stage list" where
  "visionStages customOptions =
     (case customOptions of
        Some opts \<Rightarrow>
          if opt_provider opts = Some ''openrouter'' \<and> present (opt_model opts)
          then [priorityStage (orDefault (opt_model opts) []), attempt1, attempt2, attempt3]
          else [attempt1, attempt2, attempt3]
      | None \<Rightarrow> [attempt1, attempt2, attempt3])"

definition visionPrompt :: "visionOptions option \<Rightarrow> string" where
  \<comment> \<open>\<open>customOptions?.prompt || "Describe this image in detail."\<close>\<close>
  "visionPrompt customOptions =
     (case customOptions of
        Some opts \<Rightarrow> orDefault (opt_prompt opts) ''Describe this image in detail.''
      | None \<Rightarrow> ''Describe this image in detail.'')"

definition processImageWithVision ::
  "environment \<Rightarrow> string \<Rightarrow> pageConfig \<Rightarrow> visionOptions option \<Rightarrow> world \<Rightarrow> result \<times> world" where
  "processImageWithVision env imageUrl pageConfig customOptions w =
     (case preprocessImage env imageUrl pageConfig w of
        (Raise e, w1) \<Rightarrow>
          (Returned (Str (''Image found but failed to download/decode. Reason: '' @ errMessage e)),
           logDebug (''[Vision] Pre-processing Failed: '' @ errMessage e) w1)
      | (Ok (base64Image, mimeType), w1) \<Rightarrow>
          (case runStages (visionStages customOptions) (visionPrompt customOptions) [] w1 of
             (v, w2) \<Rightarrow> (Returned v, w2)))"

section \<open>Reading the trace\<close>

fun isPoolAcquire :: "event \<Rightarrow> bool" where
  "isPoolAcquire (GetSmartKey provider model) = True"
| "isPoolAcquire e = False"

fun isSwarmCall :: "event \<Rightarrow> bool" where
  "isSwarmCall (ChatCreate Swarm apiKey baseURL model msgs fmt) = True"
| "isSwarmCall e = False"

fun isPhase1Call :: "event \<Rightarrow> bool" where
  \<comment> \<open>the first call of a Phase-1 attempt\<close>
  "isPhase1Call (ChatCreate Phase1 apiKey baseURL model msgs fmt) = True"
| "isPhase1Call e = False"

fun isRequery :: "event \<Rightarrow> bool" where
  \<comment> \<open>the second inference call of the tool-call loop\<close>
  "isRequery (ChatCreate Phase1Requery apiKey baseURL model msgs fmt) = True"
| "isRequery e = False"

fun isInference :: "event \<Rightarrow> bool" where
  "isInference (ChatCreate site apiKey baseURL model msgs fmt) = True"
| "isInference (OwnApiPost apiKey model msgs) = True"
| "isInference e = False"

fun isSearch :: "event \<Rightarrow> bool" where
  "isSearch (SearchProducts userId query pageId) = True"
| "isSearch e = False"

fun isUserKeyCall :: "event \<Rightarrow> bool" where
  \<comment> \<open>a call that sends the page's own \<open>api_key\<close>\<close>
  "isUserKeyCall (ChatCreate Phase1 apiKey baseURL model msgs fmt) = True"
| "isUserKeyCall (ChatCreate Phase1Requery apiKey baseURL model msgs fmt) = True"
| "isUserKeyCall (OwnApiPost apiKey model msgs) = True"
| "isUserKeyCall e = False"

fun callKey :: "event \<Rightarrow> string" where
  \<comment> \<open>the API key of an inference call\<close>
  "callKey (ChatCreate site apiKey baseURL model msgs fmt) = apiKey"
| "callKey (OwnApiPost apiKey model msgs) = apiKey"
| "callKey e = []"

fun callModel :: "event \<Rightarrow> string" where
  "callModel (ChatCreate site apiKey baseURL model msgs fmt) = model"
| "callModel (OwnApiPost apiKey model msgs) = model"
| "callModel e = []"

fun afterRequery :: "event list \<Rightarrow> event list" where
  \<comment> \<open>what follows the first re-query\<close>
  "afterRequery [] = []"
| "afterRequery (e # es) = (if isRequery e then es else afterRequery es)"

definition fresh :: "world \<Rightarrow> world" where
  \<comment> \<open>the same world at the start of a request, with an empty trace\<close>
  "fresh w = w\<lparr>events := []\<rparr>"

definition failedReply :: "completion outcome \<Rightarrow> bool" where
  \<comment> \<open>an inference call that raises or comes back without a choice\<close>
  "failedReply r = (case r of Raise e \<Rightarrow> True | Ok c \<Rightarrow> choices c = [])"

definition emptyReply :: "completion outcome \<Rightarrow> bool" where
  \<comment> \<open>an inference call that comes back without a choice\<close>
  "emptyReply r = (case r of Raise e \<Rightarrow> False | Ok c \<Rightarrow> choices c = [])"

definition flashKey :: "keyData option outcome \<Rightarrow> bool" where
  \<comment> \<open>the pool hands over a usable key for gemini-2.5-flash\<close>
  "flashKey r =
     (case r of
        Ok (Some k) \<Rightarrow> kd_key k \<noteq> [] \<and> kd_model k = ''gemini-2.5-flash''
      | _ \<Rightarrow> False)"

fun phase1Event :: "event \<Rightarrow> bool" where
  \<comment> \<open>the kinds of event that Phase 1 can add\<close>
  "phase1Event (ChatCreate site apiKey baseURL model msgs fmt) = (site \<noteq> Swarm)"
| "phase1Event (RecordKeyUsage apiKey n) = True"
| "phase1Event (SearchProducts userId query pageId) = True"
| "phase1Event e = False"

fun swarmEvent :: "event \<Rightarrow> bool" where
  \<comment> \<open>the kinds of event that the swarm can add\<close>
  "swarmEvent (GetSmartKey provider model) = (provider = ''google'' \<and> model = ''gemini-2.5-flash'')"
| "swarmEvent (ChatCreate site apiKey baseURL model msgs fmt) = (site = Swarm \<and> model = ''gemini-2.5-flash'')"
| "swarmEvent (RecordKeyUsage apiKey n) = True"
| "swarmEvent (MarkKeyAsQuotaExceeded apiKey) = True"
| "swarmEvent (MarkKeyAsDead apiKey ms reason) = True"
| "swarmEvent (SearchProducts userId query pageId) = True"
| "swarmEvent e = False"

definition acquiredKey :: "keyData option outcome \<Rightarrow> string" where
  \<comment> \<open>the key that an answer of the pool carries\<close>
  "acquiredKey r = (case r of Ok (Some k) \<Rightarrow> kd_key k | _ \<Rightarrow> [])"

definition toolTail :: "event list \<Rightarrow> bool" where
  \<comment> \<open>what an attempt adds behind its first call: no pool call, at most one re-query and
      neither inference nor search after it\<close>
  "toolTail evs =
     (list_all phase1Event evs \<and> list_all (\<lambda>x. \<not> isPhase1Call x) evs
      \<and> length (filter isRequery evs) \<le> 1
      \<and> list_all (\<lambda>x. \<not> isInference x \<and> \<not> isSearch x) (afterRequery evs))"

definition phase1Call :: "pageConfig \<Rightarrow> commandConfig option \<Rightarrow> string \<Rightarrow> message list \<Rightarrow> string \<Rightarrow> event" where
  \<comment> \<open>the first call of a Phase-1 attempt with a given key\<close>
  "phase1Call cfg cmd bf ms k =
     ChatCreate Phase1 k (baseURLOf (inferProvider k (defaultProvider cfg cmd)))
       (orDefault (chatmodel cfg) (defaultModel cfg cmd bf)) ms (responseFormat cfg)"

definition attempted :: "string list \<Rightarrow> completion outcome list \<Rightarrow> string list" where
  \<comment> \<open>the keys that Phase 1 tries: one more than the calls that come back without a choice\<close>
  "attempted keys replies = take (Suc (length (takeWhile emptyReply replies))) keys"


definition salesmanSelected :: "pageConfig \<Rightarrow> commandConfig option \<Rightarrow> bool" where
  \<comment> \<open>the condition of the SalesmanChatbot API path\<close>
  "salesmanSelected pageConfig cmd =
     (\<not> useCheapEngine pageConfig \<and> defaultProvider pageConfig cmd = ''salesmanchatbot''
      \<and> present (api_key pageConfig))"



section \<open>Predicates on the scripted answers\<close>

definition failedPost :: "apiReply outcome \<Rightarrow> bool" where
  \<comment> \<open>a vision endpoint that raises or answers without a text\<close>
  "failedPost r =
     (case r of Raise e \<Rightarrow> True | Ok a \<Rightarrow> reply_content a = None \<or> reply_content a = Some [])"

definition trailEntry :: "stage \<Rightarrow> string \<Rightarrow> string" where
  \<comment> \<open>what a failed stage pushes on \<open>errors\<close>\<close>
  "trailEntry st msg = st_label st @ '': '' @ msg"




section \<open>Example requests\<close>

definition blank :: world where
  "blank =
     \<lparr>chatReplies = [], smartKeys = [], searchResults = [], postReplies = [], downloads = [],
      randoms = [], events = []\<rparr>"

definition ownKeyPage :: pageConfig where
  \<comment> \<open>a page in own-key mode with one Google key\<close>
  "ownKeyPage =
     \<lparr>page_id = ''page-1'', user_id = ''owner-1'', cheap_engine = Some False,
      api_key = Some ''AIzaSyUSERKEY'', ai = Some ''gemini'', operator = None, chat_model = None,
      chatmodel = None, is_external_api = False, page_access_token = None\<rparr>"

definition managedPage :: pageConfig where
  \<comment> \<open>a page in managed mode\<close>
  "managedPage =
     \<lparr>page_id = ''page-2'', user_id = ''owner-2'', cheap_engine = Some True,
      api_key = Some ''MANAGED_SECRET_KEY'', ai = None, operator = None, chat_model = None,
      chatmodel = None, is_external_api = False, page_access_token = None\<rparr>"


definition greeting :: "message list" where
  "greeting = [\<lparr>role = ''system'', content = ''Be brief.''\<rparr>, \<lparr>role = ''user'', content = ''hi''\<rparr>]"

definition httpError :: "nat \<Rightarrow> string \<Rightarrow> jsError" where
  \<comment> \<open>an API error with a status code\<close>
  "httpError status msg =
     \<lparr>errName = ''Error'', errMessage = msg, errStatus = Some status, errResponseStatus = None,
      errResponseMessage = None\<rparr>"

definition poolKey :: "string \<Rightarrow> keyData option outcome" where
  "poolKey k = Ok (Some \<lparr>kd_key = k, kd_model = ''gemini-2.5-flash''\<rparr>)"

definition answer :: "string \<Rightarrow> nat \<Rightarrow> completion outcome" where
  \<comment> \<open>a completion with one choice\<close>
  "answer text n = Ok \<lparr>choices = [text], total_tokens = n\<rparr>"

definition testEnv :: environment where
  "testEnv = \<lparr>WAHA_BASE_URL = ''https://waha.example.org'', WAHA_API_KEY = ''waha-key''\<rparr>"

definition threeFailures :: world where
  \<comment> \<open>a pool with four keys and three calls that fail: rate limit, server error, authentication\<close>
  "threeFailures =
     blank\<lparr>smartKeys := [poolKey ''POOL-1'', poolKey ''POOL-2'', poolKey ''POOL-3'', poolKey ''POOL-4''],
           chatReplies := [Raise (httpError 429 ''Too Many Requests''),
                           Raise (httpError 503 ''Service Unavailable''),
                           Raise (httpError 401 ''Unauthorized'')]\<rparr>"

definition emptyPool :: world where
  "emptyPool = blank\<lparr>smartKeys := [Ok None]\<rparr>"

definition twoToolCalls :: world where
  \<comment> \<open>the model asks for a product search, and asks again in its second response\<close>
  \<open>twoToolCalls =
     blank\<lparr>chatReplies := [answer ''{"tool":"search_products","query":"mango"}'' 10,
                           answer ''{"tool":"search_products","query":"apple"}'' 8,
                           answer ''{"reply":"never asked"}'' 5],
           searchResults := [Ok (Some []), Ok (Some [])]\<rparr>\<close>




definition visionDown :: world where
  \<comment> \<open>one pool key, whose vision call fails; no key for the later stages\<close>
  "visionDown =
     blank\<lparr>smartKeys := [poolKey ''POOL-1'', Ok None, Ok None, Ok None],
           postReplies := [Raise (httpError 503 ''Service Unavailable'')]\<rparr>"

definition inlineImage :: string where
  "inlineImage = ''data:image/png;base64,iVBORw0KGgo=''"


section \<open>Properties of the parser's cleaning steps\<close>



lemma toLowerChar_brace [simp]: "toLowerChar (CHR ''{'') = CHR ''{''" "toLowerChar (CHR ''}'') = CHR ''}''"
  by (simp_all add: toLowerChar_def isUpper_def code_def)

lemma length_toLowerCase [simp]: "length (toLowerCase s) = length s"
  by (simp add: toLowerCase_def)




lemma startsWithCI_Nil [simp]: "startsWithCI [] p \<longleftrightarrow> p = []"
  by (auto simp: startsWithCI_def toLowerCase_def)











lemma not_space_brace [simp]: "\<not> isSpaceChar (CHR ''{'')" "\<not> isSpaceChar (CHR ''}'')"
  by (simp_all add: isSpaceChar_def code_def)











section \<open>The collaborators and the trace\<close>

lemma emit_fields [simp]:
  "events (emit e w) = events w @ [e]"
  "chatReplies (emit e w) = chatReplies w"
  "smartKeys (emit e w) = smartKeys w"
  "searchResults (emit e w) = searchResults w"
  "postReplies (emit e w) = postReplies w"
  "downloads (emit e w) = downloads w"
  "randoms (emit e w) = randoms w"
  by (simp_all add: emit_def)

lemma marks_fields [simp]:
  "events (recordKeyUsage k n w) = events w @ [RecordKeyUsage k n]"
  "chatReplies (recordKeyUsage k n w) = chatReplies w"
  "smartKeys (recordKeyUsage k n w) = smartKeys w"
  "events (logDebug m w) = events w @ [LogDebug m]"
  "postReplies (logDebug m w) = postReplies w"
  "smartKeys (logDebug m w) = smartKeys w"
  by (simp_all add: recordKeyUsage_def logDebug_def)

lemma chatCreate_result:
  assumes "chatCreate site k b m ms f w = (r, w')"
  shows "events w' = events w @ [ChatCreate site k b m ms f]"
    and "smartKeys w' = smartKeys w"
    and "(chatReplies w = [] \<and> r = Raise refused \<and> chatReplies w' = []) \<or> chatReplies w = r # chatReplies w'"
  using assms by (auto simp: chatCreate_def Let_def split: list.splits)

lemma getSmartKey_result:
  assumes "getSmartKey p m w = (r, w')"
  shows "events w' = events w @ [GetSmartKey p m]"
    and "chatReplies w' = chatReplies w"
    and "(smartKeys w = [] \<and> r = Raise refused \<and> smartKeys w' = []) \<or> smartKeys w = r # smartKeys w'"
  using assms by (auto simp: getSmartKey_def Let_def split: list.splits)

lemma searchProducts_result:
  assumes "searchProducts u q p w = (r, w')"
  shows "events w' = events w @ [SearchProducts u q p]"
    and "chatReplies w' = chatReplies w"
    and "smartKeys w' = smartKeys w"
  using assms by (auto simp: searchProducts_def Let_def split: list.splits)

lemma nextPost_result:
  assumes "nextPost e w = (r, w')"
  shows "events w' = events w @ [e]"
    and "chatReplies w' = chatReplies w"
    and "smartKeys w' = smartKeys w"
    and "(postReplies w = [] \<and> r = Raise refused \<and> postReplies w' = []) \<or> postReplies w = r # postReplies w'"
  using assms by (auto simp: nextPost_def Let_def split: list.splits)

lemma handleAiError_events:
  "\<exists>evs. events (handleAiError e k m w) = events w @ evs \<and> list_all swarmEvent evs
         \<and> list_all (\<lambda>x. \<not> isPoolAcquire x \<and> \<not> isSwarmCall x) evs"
  by (auto simp: handleAiError_def markKeyAsDead_def markKeyAsQuotaExceeded_def)

lemma handleAiError_fields [simp]:
  "chatReplies (handleAiError e k m w) = chatReplies w"
  "smartKeys (handleAiError e k m w) = smartKeys w"
  by (auto simp: handleAiError_def markKeyAsDead_def markKeyAsQuotaExceeded_def)


section \<open>The swarm\<close>

lemma swarmParse_facts:
  assumes "swarmParse cfg t raw n w = (r, w')"
  shows "\<exists>evs. events w' = events w @ evs \<and> list_all swarmEvent evs
           \<and> list_all (\<lambda>x. \<not> isPoolAcquire x \<and> \<not> isSwarmCall x) evs"
    and "chatReplies w' = chatReplies w"
    and "smartKeys w' = smartKeys w"
proof -
  have "(\<exists>evs. events w' = events w @ evs \<and> list_all swarmEvent evs
           \<and> list_all (\<lambda>x. \<not> isPoolAcquire x \<and> \<not> isSwarmCall x) evs)
        \<and> chatReplies w' = chatReplies w \<and> smartKeys w' = smartKeys w"
  proof (cases "\<exists>parsed. extractJsonFromAiResponse raw = Some parsed \<and> \<not> isNullish parsed \<and> isSearchToolCall parsed")
    case False
    then have "w' = w"
      using assms by (auto simp: swarmParse_def split: option.splits if_splits)
    then show ?thesis by simp
  next
    case True
    then obtain parsed where p: "extractJsonFromAiResponse raw = Some parsed" "\<not> isNullish parsed"
      "isSearchToolCall parsed" by blast
    obtain r1 w1 where s: "searchProducts (user_id cfg) (getProp parsed ''query'') (page_id cfg) w = (r1, w1)"
      by fastforce
    have "w' = w1"
      using assms p s by (auto simp: swarmParse_def split: outcome.splits option.splits if_splits)
    with searchProducts_result [OF s] show ?thesis by simp
  qed
  then show "\<exists>evs. events w' = events w @ evs \<and> list_all swarmEvent evs
           \<and> list_all (\<lambda>x. \<not> isPoolAcquire x \<and> \<not> isSwarmCall x) evs"
    and "chatReplies w' = chatReplies w" and "smartKeys w' = smartKeys w"
    by blast+
qed


text \<open>One round of the swarm: what it adds to the trace and what it takes from the scripts.\<close>
lemma swarmAttempt_facts:
  assumes "swarmAttempt cfg ms t w = (s, w')"
  shows "\<exists>evs. events w' = events w @ GetSmartKey ''google'' ''gemini-2.5-flash'' # evs
           \<and> list_all swarmEvent evs \<and> list_all (\<lambda>x. \<not> isPoolAcquire x) evs
           \<and> length (filter isSwarmCall evs) \<le> 1"
    and "set (chatReplies w') \<subseteq> set (chatReplies w)"
    and "\<And>x. s = Done x \<Longrightarrow> \<exists>c cs v. chatReplies w = Ok c # cs \<and> choices c \<noteq> [] \<and> x = Returned v"
proof -
  let ?G = "GetSmartKey ''google'' ''gemini-2.5-flash''"
  let ?goal = "(\<exists>evs. events w' = events w @ ?G # evs
           \<and> list_all swarmEvent evs \<and> list_all (\<lambda>x. \<not> isPoolAcquire x) evs
           \<and> length (filter isSwarmCall evs) \<le> 1)
        \<and> set (chatReplies w') \<subseteq> set (chatReplies w)
        \<and> (\<forall>x. s = Done x \<longrightarrow> (\<exists>c cs v. chatReplies w = Ok c # cs \<and> choices c \<noteq> [] \<and> x = Returned v))"
  obtain r1 w1 where g: "getSmartKey ''google'' ''gemini-2.5-flash'' w = (r1, w1)" by fastforce
  note g' = getSmartKey_result [OF g]
  have ?goal
  proof (cases "flashKey r1")
    case False
    then have "w' = w1 \<and> s \<noteq> Done x" for x
      using assms g by (auto simp: swarmAttempt_def flashKey_def split: outcome.splits option.splits if_splits)
    then show ?thesis using g' by auto
  next
    case True
    then obtain k where k: "r1 = Ok (Some k)" "kd_key k \<noteq> []" "kd_model k = ''gemini-2.5-flash''"
      by (auto simp: flashKey_def split: outcome.splits option.splits)
    let ?C = "ChatCreate Swarm (kd_key k) ''https://generativelanguage.googleapis.com/v1beta/openai/''
                ''gemini-2.5-flash'' ms (responseFormat cfg)"
    obtain r2 w2 where c: "chatCreate Swarm (kd_key k) ''https://generativelanguage.googleapis.com/v1beta/openai/''
                ''gemini-2.5-flash'' ms (responseFormat cfg) w1 = (r2, w2)" by fastforce
    note c' = chatCreate_result [OF c]
    have sub: "set (chatReplies w2) \<subseteq> set (chatReplies w)"
      using c'(3) g'(2) by auto
    have ev2: "events w2 = events w @ [?G, ?C]" using c'(1) g'(1) by simp
    show ?thesis
    proof (cases "failedReply r2")
      case True
      then obtain e where e: "w' = handleAiError e (kd_key k) ''gemini-2.5-flash'' w2" and n: "s = Next"
        using assms g c k
        by (auto simp: swarmAttempt_def failedReply_def Let_def split: outcome.splits list.splits)
      obtain evs where h: "events w' = events w2 @ evs" "list_all swarmEvent evs"
        "list_all (\<lambda>x. \<not> isPoolAcquire x \<and> \<not> isSwarmCall x) evs"
        using handleAiError_events [of e "kd_key k" "''gemini-2.5-flash''" w2] e by blast
      have "events w' = events w @ ?G # (?C # evs)" using h(1) ev2 by simp
      moreover have "list_all swarmEvent (?C # evs)" using h(2) by simp
      moreover have "list_all (\<lambda>x. \<not> isPoolAcquire x) (?C # evs)" using h(3) by (simp add: list_all_iff)
      moreover have "filter isSwarmCall evs = []" using h(3) by (simp add: list_all_iff filter_empty_conv)
      then have "length (filter isSwarmCall (?C # evs)) \<le> 1" by simp
      ultimately have "\<exists>evs. events w' = events w @ ?G # evs
           \<and> list_all swarmEvent evs \<and> list_all (\<lambda>x. \<not> isPoolAcquire x) evs
           \<and> length (filter isSwarmCall evs) \<le> 1" by blast
      then show ?thesis using e sub n by simp
    next
      case False
      then obtain comp raw rest where comp: "r2 = Ok comp" "choices comp = raw # rest"
        by (cases r2) (auto simp: failedReply_def neq_Nil_conv)
      let ?n = "estimateTokenUsage ms raw (total_tokens comp)"
      obtain r3 w4 where p: "swarmParse cfg t raw ?n (recordKeyUsage (kd_key k) ?n w2) = (r3, w4)"
        by fastforce
      note p' = swarmParse_facts [OF p]
      have res: "w' = w4 \<and> (\<exists>v. s = Done (Returned v))"
        using assms g c k comp p
        by (auto simp: swarmAttempt_def Let_def split: outcome.splits)
      obtain evs where h: "events w4 = events (recordKeyUsage (kd_key k) ?n w2) @ evs" "list_all swarmEvent evs"
        "list_all (\<lambda>x. \<not> isPoolAcquire x \<and> \<not> isSwarmCall x) evs"
        using p'(1) by blast
      let ?R = "RecordKeyUsage (kd_key k) ?n"
      have "events w' = events w @ ?G # (?C # ?R # evs)" using h(1) ev2 res by simp
      moreover have "list_all swarmEvent (?C # ?R # evs)" using h(2) by simp
      moreover have "list_all (\<lambda>x. \<not> isPoolAcquire x) (?C # ?R # evs)" using h(3) by (simp add: list_all_iff)
      moreover have "filter isSwarmCall evs = []" using h(3) by (simp add: list_all_iff filter_empty_conv)
      then have "length (filter isSwarmCall (?C # ?R # evs)) \<le> 1" by simp
      ultimately have "\<exists>evs. events w' = events w @ ?G # evs
           \<and> list_all swarmEvent evs \<and> list_all (\<lambda>x. \<not> isPoolAcquire x) evs
           \<and> length (filter isSwarmCall evs) \<le> 1" by blast
      moreover have "set (chatReplies w') \<subseteq> set (chatReplies w)"
        using res p'(2) sub by simp
      moreover have "\<exists>c cs. chatReplies w = Ok c # cs \<and> choices c \<noteq> []"
        using c'(3) comp g'(2) by (auto simp: refused_def)
      ultimately show ?thesis using res by auto
    qed
  qed
  then show "\<exists>evs. events w' = events w @ ?G # evs
           \<and> list_all swarmEvent evs \<and> list_all (\<lambda>x. \<not> isPoolAcquire x) evs
           \<and> length (filter isSwarmCall evs) \<le> 1"
    and "set (chatReplies w') \<subseteq> set (chatReplies w)"
    and "\<And>x. s = Done x \<Longrightarrow> \<exists>c cs v. chatReplies w = Ok c # cs \<and> choices c \<noteq> [] \<and> x = Returned v"
    by blast+
qed


lemma swarmLoop_trace:
  "swarmLoop n cfg ms t w = (r, w') \<Longrightarrow>
     \<exists>evs. events w' = events w @ evs \<and> list_all swarmEvent evs
       \<and> length (filter isPoolAcquire evs) \<le> n
       \<and> length (filter isSwarmCall evs) \<le> length (filter isPoolAcquire evs)
       \<and> (0 < n \<longrightarrow> (\<exists>rest. evs = GetSmartKey ''google'' ''gemini-2.5-flash'' # rest))
       \<and> (\<exists>v. r = Returned v)"
proof (induction n arbitrary: w)
  case 0
  then show ?case by auto
next
  case (Suc n)
  let ?G = "GetSmartKey ''google'' ''gemini-2.5-flash''"
  obtain s w1 where a: "swarmAttempt cfg ms t w = (s, w1)" by fastforce
  from swarmAttempt_facts(1) [OF a] obtain evs1 where e1:
    "events w1 = events w @ ?G # evs1" "list_all swarmEvent evs1"
    "list_all (\<lambda>x. \<not> isPoolAcquire x) evs1" "length (filter isSwarmCall evs1) \<le> 1" by blast
  have noacq: "filter isPoolAcquire evs1 = []"
    using e1(3) by (simp add: list_all_iff filter_empty_conv)
  show ?case
  proof (cases s)
    case Next
    then have l: "swarmLoop n cfg ms t w1 = (r, w')" using Suc.prems a by simp
    from Suc.IH [OF l] obtain evs2 where e2: "events w' = events w1 @ evs2" "list_all swarmEvent evs2"
      "length (filter isPoolAcquire evs2) \<le> n"
      "length (filter isSwarmCall evs2) \<le> length (filter isPoolAcquire evs2)" "\<exists>v. r = Returned v"
      by blast
    have "events w' = events w @ (?G # evs1 @ evs2)" using e1(1) e2(1) by simp
    moreover have "list_all swarmEvent (?G # evs1 @ evs2)" using e1(2) e2(2) by simp
    moreover have "length (filter isPoolAcquire (?G # evs1 @ evs2)) \<le> Suc n"
      using noacq e2(3) by simp
    moreover have "length (filter isSwarmCall (?G # evs1 @ evs2)) \<le> length (filter isPoolAcquire (?G # evs1 @ evs2))"
      using noacq e1(4) e2(4) by simp
    ultimately show ?thesis using e2(5) by blast
  next
    case Break
    then have "w' = w1" "r = Returned Null" using Suc.prems a by simp_all
    moreover have "list_all swarmEvent (?G # evs1)" using e1(2) by simp
    moreover have "length (filter isPoolAcquire (?G # evs1)) \<le> Suc n" using noacq by simp
    moreover have "length (filter isSwarmCall (?G # evs1)) \<le> length (filter isPoolAcquire (?G # evs1))"
      using noacq e1(4) by simp
    ultimately show ?thesis using e1(1) by blast
  next
    case (Done x)
    then have "w' = w1" "r = x" using Suc.prems a by simp_all
    moreover have "\<exists>v. x = Returned v" using swarmAttempt_facts(3) [OF a Done] by blast
    moreover have "list_all swarmEvent (?G # evs1)" using e1(2) by simp
    moreover have "length (filter isPoolAcquire (?G # evs1)) \<le> Suc n" using noacq by simp
    moreover have "length (filter isSwarmCall (?G # evs1)) \<le> length (filter isPoolAcquire (?G # evs1))"
      using noacq e1(4) by simp
    ultimately show ?thesis using e1(1) by blast
  qed
qed

lemma list_all_subset: "list_all P xs \<Longrightarrow> set ys \<subseteq> set xs \<Longrightarrow> list_all P ys"
  by (auto simp: list_all_iff)

lemma swarmLoop_exhausted:
  "list_all failedReply (chatReplies w) \<Longrightarrow> swarmLoop n cfg ms t w = (r, w') \<Longrightarrow> r = Returned Null"
proof (induction n arbitrary: w)
  case 0
  then show ?case by simp
next
  case (Suc n)
  obtain s w1 where a: "swarmAttempt cfg ms t w = (s, w1)" by fastforce
  have f1: "list_all failedReply (chatReplies w1)"
    using Suc.prems(1) swarmAttempt_facts(2) [OF a] by (rule list_all_subset)
  show ?case
  proof (cases s)
    case Next
    then show ?thesis using Suc.IH [OF f1] Suc.prems(2) a by simp
  next
    case Break
    then show ?thesis using Suc.prems(2) a by simp
  next
    case (Done x)
    from swarmAttempt_facts(3) [OF a Done] obtain c cs where "chatReplies w = Ok c # cs" "choices c \<noteq> []"
      by blast
    with Suc.prems(1) show ?thesis by (simp add: failedReply_def)
  qed
qed

text \<open>A round whose call fails uses the key it has just acquired and goes on.\<close>
lemma swarmAttempt_failed:
  assumes "smartKeys w = k # ks" and "flashKey k" and "list_all failedReply (chatReplies w)"
  shows "\<exists>w' evs. swarmAttempt cfg ms t w = (Next, w') \<and> smartKeys w' = ks
           \<and> list_all failedReply (chatReplies w') \<and> events w' = events w @ evs
           \<and> map callKey (filter isSwarmCall evs) = [acquiredKey k]"
proof -
  let ?G = "GetSmartKey ''google'' ''gemini-2.5-flash''"
  obtain kd where k: "k = Ok (Some kd)" "kd_key kd \<noteq> []" "kd_model kd = ''gemini-2.5-flash''"
    using assms(2) by (auto simp: flashKey_def split: outcome.splits option.splits)
  obtain r1 w1 where g: "getSmartKey ''google'' ''gemini-2.5-flash'' w = (r1, w1)" by fastforce
  note g' = getSmartKey_result [OF g]
  have r1: "r1 = k" "smartKeys w1 = ks" using g'(3) assms(1) by auto
  let ?C = "ChatCreate Swarm (kd_key kd) ''https://generativelanguage.googleapis.com/v1beta/openai/''
                ''gemini-2.5-flash'' ms (responseFormat cfg)"
  obtain r2 w2 where c: "chatCreate Swarm (kd_key kd) ''https://generativelanguage.googleapis.com/v1beta/openai/''
                ''gemini-2.5-flash'' ms (responseFormat cfg) w1 = (r2, w2)" by fastforce
  note c' = chatCreate_result [OF c]
  have f2: "failedReply r2"
    using c'(3) g'(2) assms(3) by (auto simp: failedReply_def)
  have sub: "set (chatReplies w2) \<subseteq> set (chatReplies w)" using c'(3) g'(2) by auto
  obtain e where e: "swarmAttempt cfg ms t w = (Next, handleAiError e (kd_key kd) ''gemini-2.5-flash'' w2)"
    using g c k r1 f2
    by (auto simp: swarmAttempt_def failedReply_def Let_def split: outcome.splits list.splits)
  let ?w' = "handleAiError e (kd_key kd) ''gemini-2.5-flash'' w2"
  obtain evs where h: "events ?w' = events w2 @ evs"
    "list_all (\<lambda>x. \<not> isPoolAcquire x \<and> \<not> isSwarmCall x) evs"
    using handleAiError_events [of e "kd_key kd" "''gemini-2.5-flash''" w2] by blast
  have nosw: "filter isSwarmCall evs = []" using h(2) by (simp add: list_all_iff filter_empty_conv)
  have "events ?w' = events w @ (?G # ?C # evs)" using h(1) c'(1) g'(1) by simp
  moreover have "map callKey (filter isSwarmCall (?G # ?C # evs)) = [acquiredKey k]"
    using nosw k by (simp add: acquiredKey_def)
  moreover have "smartKeys ?w' = ks" using c'(2) r1 by simp
  moreover have "list_all failedReply (chatReplies ?w')"
    using assms(3) sub by (simp add: list_all_iff subset_iff)
  ultimately have "swarmAttempt cfg ms t w = (Next, ?w') \<and> smartKeys ?w' = ks
           \<and> list_all failedReply (chatReplies ?w') \<and> events ?w' = events w @ (?G # ?C # evs)
           \<and> map callKey (filter isSwarmCall (?G # ?C # evs)) = [acquiredKey k]"
    using e by simp
  then show ?thesis by (intro exI [of _ ?w'] exI [of _ "?G # ?C # evs"])
qed

lemma swarmLoop_all_failed:
  "smartKeys w = ks @ rest \<Longrightarrow> list_all flashKey ks \<Longrightarrow> list_all failedReply (chatReplies w) \<Longrightarrow>
   swarmLoop (length ks) cfg ms t w = (r, w') \<Longrightarrow>
     \<exists>evs. events w' = events w @ evs \<and> map callKey (filter isSwarmCall evs) = map acquiredKey ks"
proof (induction ks arbitrary: w)
  case Nil
  then show ?case by simp
next
  case (Cons k ks)
  from swarmAttempt_failed [of w k "ks @ rest" cfg ms t] Cons.prems
  obtain w1 evs1 where a: "swarmAttempt cfg ms t w = (Next, w1)" "smartKeys w1 = ks @ rest"
    "list_all failedReply (chatReplies w1)" "events w1 = events w @ evs1"
    "map callKey (filter isSwarmCall evs1) = [acquiredKey k]" by auto
  have l: "swarmLoop (length ks) cfg ms t w1 = (r, w')" using Cons.prems(4) a(1) by simp
  from Cons.IH [OF a(2) _ a(3) l] Cons.prems(2)
  obtain evs2 where e2: "events w' = events w1 @ evs2" "map callKey (filter isSwarmCall evs2) = map acquiredKey ks"
    by auto
  have "events w' = events w @ (evs1 @ evs2)" using a(4) e2(1) by simp
  moreover have "map callKey (filter isSwarmCall (evs1 @ evs2)) = map acquiredKey (k # ks)"
    using a(5) e2(2) by simp
  ultimately show ?case by blast
qed

lemma swarmLoop_no_key:
  assumes "smartKeys w = Ok None # rest"
  shows "\<exists>w'. swarmLoop (Suc n) cfg ms t w = (Returned Null, w')
           \<and> events w' = events w @ [GetSmartKey ''google'' ''gemini-2.5-flash'']"
proof -
  obtain r1 w1 where g: "getSmartKey ''google'' ''gemini-2.5-flash'' w = (r1, w1)" by fastforce
  note g' = getSmartKey_result [OF g]
  have "r1 = Ok None" using g'(3) assms by auto
  then have "swarmAttempt cfg ms t w = (Break, w1)" using g by (simp add: swarmAttempt_def)
  then show ?thesis using g'(1) by simp
qed

lemma generateReply_managed:
  "\<not> enterPhase1 cfg cmd \<Longrightarrow> \<not> salesmanSelected cfg cmd \<Longrightarrow>
   generateReply cfg cmd bf ms t w = swarmLoop 3 cfg ms t w"
  by (auto simp: generateReply_def salesmanSelected_def)


section \<open>Phase 1\<close>

lemma phase1Requery_facts:
  assumes "phase1Requery cfg ms t k b m parsed n w = (r, w')"
  shows "\<exists>evs. events w' = events w @ SearchProducts (user_id cfg) (getProp parsed ''query'') (page_id cfg) # evs
           \<and> (evs = [] \<or> (\<exists>ms2. evs = [ChatCreate Phase1Requery k b m ms2 True])
                \<or> (\<exists>ms2 n2. evs = [ChatCreate Phase1Requery k b m ms2 True, RecordKeyUsage k n2]))"
    and "set (chatReplies w') \<subseteq> set (chatReplies w)"
    and "smartKeys w' = smartKeys w"
proof -
  let ?S = "SearchProducts (user_id cfg) (getProp parsed ''query'') (page_id cfg)"
  let ?goal = "(\<exists>evs. events w' = events w @ ?S # evs
           \<and> (evs = [] \<or> (\<exists>ms2. evs = [ChatCreate Phase1Requery k b m ms2 True])
                \<or> (\<exists>ms2 n2. evs = [ChatCreate Phase1Requery k b m ms2 True, RecordKeyUsage k n2])))
        \<and> set (chatReplies w') \<subseteq> set (chatReplies w) \<and> smartKeys w' = smartKeys w"
  obtain r1 w1 where s: "searchProducts (user_id cfg) (getProp parsed ''query'') (page_id cfg) w = (r1, w1)"
    by fastforce
  note s' = searchProducts_result [OF s]
  have ?goal
  proof (cases r1)
    case (Raise e)
    then have "w' = w1" using assms s by (simp add: phase1Requery_def)
    then show ?thesis using s' by simp
  next
    case (Ok products)
    let ?ms2 = "ms @ [\<lparr>role = ''assistant'', content = JSON_stringify parsed\<rparr>, searchResultsMessage products]"
    obtain r2 w2 where c: "chatCreate Phase1Requery k b m ?ms2 True w1 = (r2, w2)" by fastforce
    note c' = chatCreate_result [OF c]
    have sub: "set (chatReplies w2) \<subseteq> set (chatReplies w)" using c'(3) s'(2) by auto
    have sk: "smartKeys w2 = smartKeys w" using c'(2) s'(3) by simp
    have ev: "events w2 = events w @ [?S, ChatCreate Phase1Requery k b m ?ms2 True]"
      using c'(1) s'(1) by simp
    show ?thesis
    proof (cases "failedReply r2")
      case True
      then have "w' = w2"
        using assms s Ok c
        by (auto simp: phase1Requery_def Let_def failedReply_def split: outcome.splits list.splits)
      then show ?thesis using ev sub sk by simp
    next
      case False
      then obtain c2 raw2 rest where c2: "r2 = Ok c2" "choices c2 = raw2 # rest"
        by (cases r2) (auto simp: failedReply_def neq_Nil_conv)
      let ?n2 = "estimateTokenUsage ?ms2 raw2 (total_tokens c2)"
      have "w' = recordKeyUsage k ?n2 w2"
        using assms s Ok c c2
        by (auto simp: phase1Requery_def Let_def split: option.splits if_splits)
      then show ?thesis using ev sub sk by simp
    qed
  qed
  then show "\<exists>evs. events w' = events w @ ?S # evs
           \<and> (evs = [] \<or> (\<exists>ms2. evs = [ChatCreate Phase1Requery k b m ms2 True])
                \<or> (\<exists>ms2 n2. evs = [ChatCreate Phase1Requery k b m ms2 True, RecordKeyUsage k n2]))"
    and "set (chatReplies w') \<subseteq> set (chatReplies w)" and "smartKeys w' = smartKeys w"
    by blast+
qed

lemma toolTail_simps [simp]:
  "toolTail []"
  "toolTail [SearchProducts u q p]"
  "toolTail [SearchProducts u q p, ChatCreate Phase1Requery k b m ms2 f]"
  "toolTail [SearchProducts u q p, ChatCreate Phase1Requery k b m ms2 f, RecordKeyUsage k' n2]"
  "toolTail (RecordKeyUsage k' n # evs) = toolTail evs"
  by (simp_all add: toolTail_def)

lemma phase1Parse_facts:
  assumes "phase1Parse cfg ms t k b m raw n w = (r, w')"
  shows "\<exists>evs. events w' = events w @ evs \<and> toolTail evs"
    and "set (chatReplies w') \<subseteq> set (chatReplies w)"
    and "smartKeys w' = smartKeys w"
proof -
  have "(\<exists>evs. events w' = events w @ evs \<and> toolTail evs)
        \<and> set (chatReplies w') \<subseteq> set (chatReplies w) \<and> smartKeys w' = smartKeys w"
  proof (cases "\<exists>parsed. extractJsonFromAiResponse raw = Some parsed \<and> \<not> isNullish parsed \<and> isSearchToolCall parsed")
    case False
    then have "w' = w"
      using assms by (auto simp: phase1Parse_def split: option.splits if_splits)
    then show ?thesis by simp
  next
    case True
    then obtain parsed where p: "extractJsonFromAiResponse raw = Some parsed" "\<not> isNullish parsed"
      "isSearchToolCall parsed" by blast
    then have q: "phase1Requery cfg ms t k b m parsed n w = (r, w')"
      using assms by (simp add: phase1Parse_def)
    from phase1Requery_facts(1) [OF q] have "\<exists>evs. events w' = events w @ evs \<and> toolTail evs"
      by (elim exE conjE disjE) (rule exI, rule conjI, assumption, simp)+
    then show ?thesis using phase1Requery_facts(2,3) [OF q] by simp
  qed
  then show "\<exists>evs. events w' = events w @ evs \<and> toolTail evs"
    and "set (chatReplies w') \<subseteq> set (chatReplies w)" and "smartKeys w' = smartKeys w"
    by blast+
qed


text \<open>One attempt with a user key.\<close>
lemma phase1Attempt_facts:
  assumes "phase1Attempt cfg cmd bf ms t k w = (s, w')"
  shows "\<exists>evs. events w' = events w @ phase1Call cfg cmd bf ms k # evs \<and> toolTail evs
           \<and> (s = Next \<longrightarrow> evs = [])"
    and "set (chatReplies w') \<subseteq> set (chatReplies w)"
    and "smartKeys w' = smartKeys w"
    and "s = Next \<longleftrightarrow> (\<exists>r rs. chatReplies w = r # rs \<and> emptyReply r)"
    and "s = Next \<Longrightarrow> chatReplies w' = tl (chatReplies w)"
    and "s \<noteq> Break"
proof -
  let ?b = "baseURLOf (inferProvider k (defaultProvider cfg cmd))"
  let ?m = "orDefault (chatmodel cfg) (defaultModel cfg cmd bf)"
  let ?goal = "(\<exists>evs. events w' = events w @ phase1Call cfg cmd bf ms k # evs \<and> toolTail evs
           \<and> (s = Next \<longrightarrow> evs = []))
     \<and> set (chatReplies w') \<subseteq> set (chatReplies w) \<and> smartKeys w' = smartKeys w
     \<and> (s = Next \<longleftrightarrow> (\<exists>r rs. chatReplies w = r # rs \<and> emptyReply r))
     \<and> (s = Next \<longrightarrow> chatReplies w' = tl (chatReplies w)) \<and> s \<noteq> Break"
  obtain r1 w1 where c: "chatCreate Phase1 k ?b ?m ms (responseFormat cfg) w = (r1, w1)" by fastforce
  note c' = chatCreate_result [OF c]
  have ev: "events w1 = events w @ [phase1Call cfg cmd bf ms k]"
    using c'(1) by (simp add: phase1Call_def)
  have sub: "set (chatReplies w1) \<subseteq> set (chatReplies w)" using c'(3) by auto
  have ?goal
  proof (cases r1)
    case (Raise e)
    then have "w' = w1" "s = Done (phase1Failure e)"
      using assms c by (simp_all add: phase1Attempt_def Let_def)
    moreover have "\<not> (\<exists>r rs. chatReplies w = r # rs \<and> emptyReply r)"
      using c'(3) Raise by (auto simp: emptyReply_def)
    ultimately show ?thesis using ev sub c'(2) by simp
  next
    case (Ok comp)
    show ?thesis
    proof (cases "choices comp")
      case Nil
      then have "w' = w1" "s = Next"
        using assms c Ok by (simp_all add: phase1Attempt_def Let_def)
      moreover have "\<exists>r rs. chatReplies w = r # rs \<and> emptyReply r"
        using c'(3) Ok Nil by (auto simp: emptyReply_def refused_def)
      moreover have "chatReplies w1 = tl (chatReplies w)" using c'(3) Ok by auto
      ultimately show ?thesis using ev sub c'(2) by simp
    next
      case (Cons raw rest)
      let ?n = "estimateTokenUsage ms raw (total_tokens comp)"
      obtain r3 w3 where p: "phase1Parse cfg ms t k ?b ?m raw ?n (recordKeyUsage k ?n w1) = (r3, w3)"
        by fastforce
      note p' = phase1Parse_facts [OF p]
      have res: "w' = w3 \<and> (\<exists>v. s = Done (Returned v))"
        using assms c Ok Cons p by (auto simp: phase1Attempt_def Let_def split: outcome.splits)
      obtain evs where h: "events w3 = events (recordKeyUsage k ?n w1) @ evs" "toolTail evs"
        using p'(1) by blast
      have "events w' = events w @ phase1Call cfg cmd bf ms k # (RecordKeyUsage k ?n # evs)"
        using h(1) ev res by simp
      moreover have "toolTail (RecordKeyUsage k ?n # evs)" using h(2) by simp
      moreover have "\<not> (\<exists>r rs. chatReplies w = r # rs \<and> emptyReply r)"
        using c'(3) Ok Cons by (auto simp: emptyReply_def)
      moreover have "set (chatReplies w') \<subseteq> set (chatReplies w)" using res p'(2) sub by simp
      moreover have "smartKeys w' = smartKeys w" using res p'(3) c'(2) by simp
      ultimately show ?thesis using res by auto
    qed
  qed
  then show "\<exists>evs. events w' = events w @ phase1Call cfg cmd bf ms k # evs \<and> toolTail evs
           \<and> (s = Next \<longrightarrow> evs = [])"
    and "set (chatReplies w') \<subseteq> set (chatReplies w)"
    and "smartKeys w' = smartKeys w"
    and "s = Next \<longleftrightarrow> (\<exists>r rs. chatReplies w = r # rs \<and> emptyReply r)"
    and "s = Next \<Longrightarrow> chatReplies w' = tl (chatReplies w)"
    and "s \<noteq> Break"
    by blast+
qed

lemma phase1Loop_facts:
  "phase1Loop cfg cmd bf ms t keys w = (s, w') \<Longrightarrow>
     \<exists>evs. events w' = events w @ evs \<and> list_all phase1Event evs
       \<and> length (filter isRequery evs) \<le> 1
       \<and> list_all (\<lambda>x. \<not> isInference x \<and> \<not> isSearch x) (afterRequery evs)
       \<and> filter isPhase1Call evs = map (phase1Call cfg cmd bf ms) (attempted keys (chatReplies w))
       \<and> (s = Next \<longrightarrow> filter isRequery evs = [])
       \<and> s \<noteq> Break"
proof (induction keys arbitrary: w)
  case Nil
  then show ?case by (simp add: attempted_def)
next
  case (Cons k ks)
  obtain s1 w1 where a: "phase1Attempt cfg cmd bf ms t k w = (s1, w1)" by fastforce
  note a' = phase1Attempt_facts [OF a]
  from a'(1) obtain evs1 where e1: "events w1 = events w @ phase1Call cfg cmd bf ms k # evs1"
    "toolTail evs1" "s1 = Next \<longrightarrow> evs1 = []" by blast
  let ?c = "phase1Call cfg cmd bf ms k"
  have c_props: "phase1Event ?c" "isPhase1Call ?c" "\<not> isRequery ?c"
    by (simp_all add: phase1Call_def)
  have nocall: "filter isPhase1Call evs1 = []"
    using e1(2) by (simp add: toolTail_def list_all_iff filter_empty_conv)
  show ?case
  proof (cases "s1 = Next")
    case True
    then have l: "phase1Loop cfg cmd bf ms t ks w1 = (s, w')" using Cons.prems a by simp
    from Cons.IH [OF l] obtain evs2 where e2: "events w' = events w1 @ evs2" "list_all phase1Event evs2"
      "length (filter isRequery evs2) \<le> 1"
      "list_all (\<lambda>x. \<not> isInference x \<and> \<not> isSearch x) (afterRequery evs2)"
      "filter isPhase1Call evs2 = map (phase1Call cfg cmd bf ms) (attempted ks (chatReplies w1))"
      "s = Next \<longrightarrow> filter isRequery evs2 = []" "s \<noteq> Break" by blast
    from True a'(4) obtain r rs where r: "chatReplies w = r # rs" "emptyReply r" by blast
    have tl: "chatReplies w1 = rs" using a'(5) True r by simp
    have att: "attempted (k # ks) (chatReplies w) = k # attempted ks (chatReplies w1)"
      using r tl by (simp add: attempted_def)
    have evs1: "evs1 = []" using e1(3) True by simp
    have "events w' = events w @ (?c # evs2)" using e1(1) e2(1) evs1 by simp
    moreover have "list_all phase1Event (?c # evs2)" using e2(2) c_props by simp
    moreover have "length (filter isRequery (?c # evs2)) \<le> 1" using e2(3) c_props by simp
    moreover have "list_all (\<lambda>x. \<not> isInference x \<and> \<not> isSearch x) (afterRequery (?c # evs2))"
      using e2(4) c_props by simp
    moreover have "filter isPhase1Call (?c # evs2) = map (phase1Call cfg cmd bf ms) (attempted (k # ks) (chatReplies w))"
      using e2(5) c_props att by simp
    moreover have "s = Next \<longrightarrow> filter isRequery (?c # evs2) = []" using e2(6) c_props by simp
    ultimately show ?thesis using e2(7) by blast
  next
    case False
    then have res: "s = s1" "w' = w1" using Cons.prems a a'(6) by (cases s1; simp)+
    have "\<not> (\<exists>r rs. chatReplies w = r # rs \<and> emptyReply r)" using a'(4) False by simp
    then have "takeWhile emptyReply (chatReplies w) = []"
      by (cases "chatReplies w") auto
    then have att: "attempted (k # ks) (chatReplies w) = [k]" by (simp add: attempted_def)
    have "events w' = events w @ (?c # evs1)" using e1(1) res by simp
    moreover have "list_all phase1Event (?c # evs1)" using e1(2) c_props by (simp add: toolTail_def)
    moreover have "length (filter isRequery (?c # evs1)) \<le> 1" using e1(2) c_props by (simp add: toolTail_def)
    moreover have "list_all (\<lambda>x. \<not> isInference x \<and> \<not> isSearch x) (afterRequery (?c # evs1))"
      using e1(2) c_props by (simp add: toolTail_def)
    moreover have "filter isPhase1Call (?c # evs1) = map (phase1Call cfg cmd bf ms) (attempted (k # ks) (chatReplies w))"
      using nocall c_props att by simp
    ultimately show ?thesis using res False a'(6) by blast
  qed
qed

lemma shuffleFrom_facts:
  "shuffleFrom i keys w = (keys', w') \<Longrightarrow>
     events w' = events w \<and> chatReplies w' = chatReplies w \<and> smartKeys w' = smartKeys w
     \<and> length keys' = length keys"
proof (induction i arbitrary: keys w)
  case 0
  then show ?case by simp
next
  case (Suc i)
  obtain j w1 where n: "nextRandom (Suc i + 1) w = (j, w1)" by fastforce
  then have w1: "events w1 = events w" "chatReplies w1 = chatReplies w" "smartKeys w1 = smartKeys w"
    by (auto simp: nextRandom_def split: list.splits)
  from Suc.prems n have "shuffleFrom i (keys[Suc i := keys ! j, j := keys ! Suc i]) w1 = (keys', w')"
    by simp
  from Suc.IH [OF this] w1 show ?case by simp
qed


lemma shuffle_facts:
  assumes "shuffle keys w = (keys', w')"
  shows "events w' = events w" and "chatReplies w' = chatReplies w" and "smartKeys w' = smartKeys w"
  using shuffleFrom_facts [of "length keys - 1" keys w keys' w'] assms by (simp_all add: shuffle_def)





lemma fresh_fields [simp]:
  "events (fresh w) = []" "chatReplies (fresh w) = chatReplies w" "smartKeys (fresh w) = smartKeys w"
  by (simp_all add: fresh_def)

section \<open>The dispatcher\<close>

lemma salesmanChatbotPath_facts:
  assumes "salesmanChatbotPath cfg ms t w = (s, w')"
  shows "events w' = events w @ [OwnApiPost (orDefault (api_key cfg) []) (salesmanModel cfg) ms]"
    and "chatReplies w' = chatReplies w"
    and "smartKeys w' = smartKeys w"
    and "s \<noteq> Break"
    and "\<And>x. s = Done x \<Longrightarrow> \<exists>v. x = Returned v"
proof -
  obtain r1 w1 where p: "nextPost (OwnApiPost (orDefault (api_key cfg) []) (salesmanModel cfg) ms) w = (r1, w1)"
    by fastforce
  note p' = nextPost_result [OF p]
  have "w' = w1 \<and> s \<noteq> Break \<and> (\<forall>x. s = Done x \<longrightarrow> (\<exists>v. x = Returned v))"
    using assms p by (auto simp: salesmanChatbotPath_def split: outcome.splits option.splits if_splits)
  then show "events w' = events w @ [OwnApiPost (orDefault (api_key cfg) []) (salesmanModel cfg) ms]"
    and "chatReplies w' = chatReplies w" and "smartKeys w' = smartKeys w" and "s \<noteq> Break"
    and "\<And>x. s = Done x \<Longrightarrow> \<exists>v. x = Returned v"
    using p' by auto
qed

lemma salesman_excludes_phase1: "salesmanSelected cfg cmd \<Longrightarrow> \<not> enterPhase1 cfg cmd"
  by (simp add: salesmanSelected_def enterPhase1_def isOurOwnProvider_def)

lemma generateReply_own_key:
  "enterPhase1 cfg cmd \<Longrightarrow> generateReply cfg cmd bf ms t w = phase1 cfg cmd bf ms t w"
  by (auto simp: generateReply_def enterPhase1_def isOurOwnProvider_def)

lemma generateReply_salesman:
  "salesmanSelected cfg cmd \<Longrightarrow>
   generateReply cfg cmd bf ms t w =
     (case salesmanChatbotPath cfg ms t w of
        (Done r, w1) \<Rightarrow> (r, w1)
      | (s, w1) \<Rightarrow> swarmLoop 3 cfg ms t w1)"
  using salesman_excludes_phase1 [of cfg cmd]
  by (auto simp: generateReply_def salesmanSelected_def split: prod.splits step.splits)

lemma phase1_facts:
  assumes "phase1 cfg cmd bf ms t w = (r, w')"
  shows "\<exists>evs. events w' = events w @ evs \<and> list_all phase1Event evs
       \<and> length (filter isRequery evs) \<le> 1
       \<and> list_all (\<lambda>x. \<not> isInference x \<and> \<not> isSearch x) (afterRequery evs)
       \<and> filter isPhase1Call evs
           = map (phase1Call cfg cmd bf ms)
               (attempted (fst (shuffle (userKeys (orDefault (api_key cfg) [])) w)) (chatReplies w))"
proof -
  obtain keys w1 where sh: "shuffle (userKeys (orDefault (api_key cfg) [])) w = (keys, w1)" by fastforce
  note sh' = shuffle_facts [OF sh]
  obtain s w2 where l: "phase1Loop cfg cmd bf ms t keys w1 = (s, w2)" by fastforce
  have "w' = w2" using assms sh l by (auto simp: phase1_def split: step.splits)
  with phase1Loop_facts [OF l] sh' sh show ?thesis by auto
qed

lemma no_requery_after: "filter isRequery evs = [] \<Longrightarrow> afterRequery evs = []"
  by (induction evs) (auto split: if_splits)

lemma swarmEvent_kinds:
  "swarmEvent e \<Longrightarrow> \<not> isRequery e \<and> \<not> isUserKeyCall e \<and> \<not> isPhase1Call e"
  "swarmEvent e \<Longrightarrow> isPoolAcquire e \<Longrightarrow> e = GetSmartKey ''google'' ''gemini-2.5-flash''"
  "swarmEvent e \<Longrightarrow> isInference e \<Longrightarrow> isSwarmCall e \<and> callModel e = ''gemini-2.5-flash''"
  by (cases e; auto)+


section \<open>Lemmas on the vision chain\<close>

lemma stageKey_facts:
  assumes "stageKey st w = (r, w')"
  shows "postReplies w' = postReplies w"
proof -
  obtain r1 w1 where g: "getSmartKey (st_provider st) (st_model st) w = (r1, w1)" by fastforce
  have p1: "postReplies w1 = postReplies w"
    using g by (auto simp: getSmartKey_def Let_def split: list.splits)
  obtain r2 w2 where g2: "getSmartKey (st_provider st) ''default'' w1 = (r2, w2)" by fastforce
  have p2: "postReplies w2 = postReplies w1"
    using g2 by (auto simp: getSmartKey_def Let_def split: list.splits)
  have "w' = w1 \<or> w' = w2"
    using assms g g2 by (auto simp: stageKey_def split: outcome.splits option.splits if_splits)
  then show ?thesis using p1 p2 by auto
qed

lemma runStage_failed:
  assumes "list_all failedPost (postReplies w)" and "runStage st prompt w = (r, w')"
  shows "\<exists>e. r = Raise e" and "list_all failedPost (postReplies w')"
proof -
  obtain r1 w1 where k: "stageKey st w = (r1, w1)" by fastforce
  have p1: "postReplies w1 = postReplies w" using k by (rule stageKey_facts)
  have "(\<exists>e. r = Raise e) \<and> list_all failedPost (postReplies w')"
  proof (cases r1)
    case (Raise e)
    then have "r = Raise e" "w' = w1" using assms(2) k by (simp_all add: runStage_def)
    then show ?thesis using p1 assms(1) by simp
  next
    case (Ok apiKey)
    obtain r2 w2 where p: "nextPost (VisionPost (st_provider st) (st_model st) apiKey prompt) w1 = (r2, w2)"
      by fastforce
    note p' = nextPost_result [OF p]
    have f2: "failedPost r2" using p'(4) p1 assms(1) by (auto simp: failedPost_def)
    have sub: "list_all failedPost (postReplies w2)" using p'(4) p1 assms(1) by auto
    have "(\<exists>e. r = Raise e) \<and> w' = w2"
      using assms(2) k Ok p f2
      by (auto simp: runStage_def failedPost_def split: outcome.splits option.splits if_splits)
    then show ?thesis using sub by simp
  qed
  then show "\<exists>e. r = Raise e" and "list_all failedPost (postReplies w')" by simp_all
qed

lemma runStages_failed:
  "list_all failedPost (postReplies w) \<Longrightarrow> runStages stages prompt errors w = (v, w') \<Longrightarrow>
     v = unavailable
     \<and> (\<exists>msgs. length msgs = length stages
           \<and> last (events w') = LogDebug (''[Vision] FATAL: Image Analysis Failed. Reasons: ''
                                          @ join (errors @ map2 trailEntry stages msgs) '' | '')
           \<and> events w' \<noteq> [])"
proof (induction stages arbitrary: errors w)
  case Nil
  then show ?case by auto
next
  case (Cons st rest)
  obtain r1 w1 where s: "runStage st prompt w = (r1, w1)" by fastforce
  from runStage_failed [OF Cons.prems(1) s] obtain e where e: "r1 = Raise e"
    and f1: "list_all failedPost (postReplies w1)" by blast
  let ?w2 = "logDebug (st_errorLog st @ errMsgOf e) w1"
  have f2: "list_all failedPost (postReplies ?w2)" using f1 by simp
  have r: "runStages rest prompt (errors @ [st_label st @ '': '' @ errMsgOf e]) ?w2 = (v, w')"
    using Cons.prems(2) s e by simp
  from Cons.IH [OF f2 r] obtain msgs where m: "v = unavailable" "length msgs = length rest"
    "last (events w') = LogDebug (''[Vision] FATAL: Image Analysis Failed. Reasons: ''
        @ join ((errors @ [st_label st @ '': '' @ errMsgOf e]) @ map2 trailEntry rest msgs) '' | '')"
    "events w' \<noteq> []" by blast
  have "length (errMsgOf e # msgs) = length (st # rest)" using m(2) by simp
  moreover have "(errors @ [st_label st @ '': '' @ errMsgOf e]) @ map2 trailEntry rest msgs
                 = errors @ map2 trailEntry (st # rest) (errMsgOf e # msgs)"
    by (simp add: trailEntry_def)
  ultimately show ?case using m(1,3,4) by metis
qed

section \<open>Lemmas on the returned objects\<close>



















section \<open>The cache key\<close>

lemma normalizeMessage_no_colon: "CHR '':'' \<notin> set (normalizeMessage message)"
proof -
  have "set (trim s) \<subseteq> set s" for s
  proof -
    have "set (dropWhile isSpaceChar xs) \<subseteq> set xs" for xs
      using set_dropWhileD [of _ isSpaceChar xs] by blast
    from this [of "rev (dropWhile isSpaceChar s)"] this [of s]
    show ?thesis unfolding trim_def by auto
  qed
  moreover have "CHR '':'' \<notin> set (filter (\<lambda>c. isWordChar c \<or> isSpaceChar c \<or> (0x980 \<le> code c \<and> code c \<le> 0x9FF)) s)" for s
    by (simp add: isWordChar_def isSpaceChar_def code_def)
  ultimately show ?thesis unfolding normalizeMessage_def by blast
qed



text \<open>
  Across different messages as well: when the page identifiers hold no colon, the key
  determines the page and the sender.
\<close>

lemma split_at_first:
  assumes "x \<notin> set a" and "x \<notin> set b" and "a @ x # s = b @ x # t"
  shows "a = b \<and> s = t"
  using assms
proof (induction a arbitrary: b)
  case Nil
  then show ?case by (cases b) auto
next
  case (Cons c cs)
  then show ?case by (cases b) auto
qed

lemma getCacheKey_injective:
  assumes "CHR '':'' \<notin> set pageA" and "CHR '':'' \<notin> set pageB"
    and "getCacheKey pageA messageA senderA = getCacheKey pageB messageB senderB"
  shows "pageA = pageB \<and> senderA = senderB"
proof -
  let ?nA = "normalizeMessage messageA" and ?nB = "normalizeMessage messageB"
  have e: "pageA @ CHR '':'' # (senderA @ CHR '':'' # ?nA) = pageB @ CHR '':'' # (senderB @ CHR '':'' # ?nB)"
    using assms(3) by (simp add: getCacheKey_def)
  from split_at_first [OF assms(1) assms(2) e]
  have p: "pageA = pageB" and r: "senderA @ CHR '':'' # ?nA = senderB @ CHR '':'' # ?nB" by simp_all
  have "rev (senderA @ CHR '':'' # ?nA) = rev ?nA @ CHR '':'' # rev senderA"
    and "rev (senderB @ CHR '':'' # ?nB) = rev ?nB @ CHR '':'' # rev senderB"
    by simp_all
  with r have q: "rev ?nA @ CHR '':'' # rev senderA = rev ?nB @ CHR '':'' # rev senderB"
    by metis
  have nA: "CHR '':'' \<notin> set (rev ?nA)" and nB: "CHR '':'' \<notin> set (rev ?nB)"
    using normalizeMessage_no_colon by simp_all
  from split_at_first [OF nA nB q] have "rev senderA = rev senderB" by simp
  with p show ?thesis by simp
qed

section \<open>The response parser\<close>




section \<open>Failure of a user key\<close>

text \<open>
  C1. On a page in own-key mode with one key, the inference call fails with status 401.
  The claim says that \<open>generateReply\<close> returns \<open>{ reply: null, error: ... }\<close>. The
  \<open>catch\<close> block that builds this object reads \<open>modelToUse\<close> out of its scope, so the
  call raises a ReferenceError instead. No pooled key is acquired: the one event of the
  request is the call with the user's key.
\<close>

theorem phase1_failure_raises:
  "generateReply ownKeyPage None ''free-model'' greeting 0
     (blank\<lparr>chatReplies := [Raise (httpError 401 ''401 Incorrect API key provided'')]\<rparr>)
   = (Threw (referenceError ''modelToUse''),
      blank\<lparr>events := [ChatCreate Phase1 ''AIzaSyUSERKEY''
                          ''https://generativelanguage.googleapis.com/v1beta/openai/''
                          ''gemini-2.5-flash'' greeting True]\<rparr>)"
  by code_simp

section \<open>Quarantine durations\<close>




section \<open>The managed swarm\<close>

text \<open>
  C4. When neither the user's keys nor the SalesmanChatbot API are selected, a request
  acquires at most three pooled keys, each for google / gemini-2.5-flash, and makes at most
  one inference call per acquired key, on that model; it never raises. When every inference
  call fails (it raises, with whatever status, or comes back without a choice) the result is
  \<open>null\<close>, and with three usable keys in the pool all three are tried, each call with the
  key acquired for it. When the pool has no key the result is \<open>null\<close> without any call.
\<close>

theorem swarm_three_attempts:
  assumes "\<not> enterPhase1 cfg cmd" and "\<not> salesmanSelected cfg cmd"
    and "generateReply cfg cmd bf ms t (fresh w) = (r, w')"
  shows "length (filter isPoolAcquire (events w')) \<le> 3
       \<and> (\<forall>e \<in> set (events w'). isPoolAcquire e \<longrightarrow> e = GetSmartKey ''google'' ''gemini-2.5-flash'')
       \<and> length (filter isSwarmCall (events w')) \<le> length (filter isPoolAcquire (events w'))
       \<and> (\<forall>e \<in> set (events w'). isInference e \<longrightarrow> isSwarmCall e \<and> callModel e = ''gemini-2.5-flash'')
       \<and> (\<exists>v. r = Returned v)
       \<and> (list_all failedReply (chatReplies w) \<longrightarrow> r = Returned Null)
       \<and> (list_all failedReply (chatReplies w) \<and> 3 \<le> length (smartKeys w)
            \<and> list_all flashKey (take 3 (smartKeys w)) \<longrightarrow>
            map callKey (filter isSwarmCall (events w')) = map acquiredKey (take 3 (smartKeys w)))
       \<and> ((\<exists>rest. smartKeys w = Ok None # rest) \<longrightarrow>
            r = Returned Null \<and> events w' = [GetSmartKey ''google'' ''gemini-2.5-flash''])"
proof -
  have l: "swarmLoop 3 cfg ms t (fresh w) = (r, w')"
    using assms generateReply_managed by simp
  from swarmLoop_trace [OF l] obtain evs where e: "events w' = evs" "list_all swarmEvent evs"
    "length (filter isPoolAcquire evs) \<le> 3"
    "length (filter isSwarmCall evs) \<le> length (filter isPoolAcquire evs)" "\<exists>v. r = Returned v"
    by auto
  have a: "\<forall>e \<in> set (events w'). isPoolAcquire e \<longrightarrow> e = GetSmartKey ''google'' ''gemini-2.5-flash''"
    using e(1,2) swarmEvent_kinds(2) by (auto simp: list_all_iff)
  have b: "\<forall>e \<in> set (events w'). isInference e \<longrightarrow> isSwarmCall e \<and> callModel e = ''gemini-2.5-flash''"
    using e(1,2) swarmEvent_kinds(3) by (auto simp: list_all_iff)
  have c: "r = Returned Null" if "list_all failedReply (chatReplies w)"
    using swarmLoop_exhausted [OF _ l] that by simp
  have d: "map callKey (filter isSwarmCall (events w')) = map acquiredKey (take 3 (smartKeys w))"
    if "list_all failedReply (chatReplies w)" "3 \<le> length (smartKeys w)"
      "list_all flashKey (take 3 (smartKeys w))"
  proof -
    have "smartKeys (fresh w) = take 3 (smartKeys w) @ drop 3 (smartKeys w)" by simp
    moreover have "length (take 3 (smartKeys w)) = 3" using that(2) by simp
    ultimately show ?thesis
      using swarmLoop_all_failed [of "fresh w" "take 3 (smartKeys w)" "drop 3 (smartKeys w)" cfg ms t r w']
        that(1,3) l by auto
  qed
  have f: "r = Returned Null \<and> events w' = [GetSmartKey ''google'' ''gemini-2.5-flash'']"
    if "\<exists>rest. smartKeys w = Ok None # rest"
  proof -
    from that obtain rest where "smartKeys (fresh w) = Ok None # rest" by auto
    from swarmLoop_no_key [OF this, of 2 cfg ms t] l show ?thesis
      by (auto simp: numeral_3_eq_3)
  qed
  show ?thesis using e(1,3,4,5) a b c d f by blast
qed

theorem swarm_three_attempts_witness:
  "\<not> enterPhase1 managedPage None \<and> \<not> salesmanSelected managedPage None
   \<and> fst (generateReply managedPage None ''free-model'' greeting 0 (fresh threeFailures)) = Returned Null
   \<and> map callKey (filter isSwarmCall
        (events (snd (generateReply managedPage None ''free-model'' greeting 0 (fresh threeFailures)))))
     = [''POOL-1'', ''POOL-2'', ''POOL-3'']
   \<and> fst (generateReply managedPage None ''free-model'' greeting 0 (fresh emptyPool)) = Returned Null
   \<and> events (snd (generateReply managedPage None ''free-model'' greeting 0 (fresh emptyPool)))
     = [GetSmartKey ''google'' ''gemini-2.5-flash'']"
proof -
  let ?run = "generateReply managedPage None ''free-model'' greeting 0 (fresh threeFailures)"
  let ?run2 = "generateReply managedPage None ''free-model'' greeting 0 (fresh emptyPool)"
  have h1: "\<not> enterPhase1 managedPage None" by code_simp
  have h2: "\<not> salesmanSelected managedPage None" by code_simp
  have h3: "?run = (fst ?run, snd ?run)" by simp
  have h4: "?run2 = (fst ?run2, snd ?run2)" by simp
  have f: "list_all failedReply (chatReplies threeFailures)" by code_simp
  have k: "3 \<le> length (smartKeys threeFailures)" "list_all flashKey (take 3 (smartKeys threeFailures))"
    by code_simp+
  have ks: "map acquiredKey (take 3 (smartKeys threeFailures)) = [''POOL-1'', ''POOL-2'', ''POOL-3'']"
    by code_simp
  have n: "\<exists>rest. smartKeys emptyPool = Ok None # rest" by (simp add: emptyPool_def blank_def)
  note t1 = swarm_three_attempts [OF h1 h2 h3]
  note t2 = swarm_three_attempts [OF h1 h2 h4]
  from t1 have "list_all failedReply (chatReplies threeFailures) \<longrightarrow> fst ?run = Returned Null"
    by blast
  with f have a: "fst ?run = Returned Null" by blast
  from t1 have "list_all failedReply (chatReplies threeFailures) \<and> 3 \<le> length (smartKeys threeFailures)
            \<and> list_all flashKey (take 3 (smartKeys threeFailures)) \<longrightarrow>
            map callKey (filter isSwarmCall (events (snd ?run))) = map acquiredKey (take 3 (smartKeys threeFailures))"
    by blast
  with f k have "map callKey (filter isSwarmCall (events (snd ?run))) = map acquiredKey (take 3 (smartKeys threeFailures))"
    by blast
  with ks have b: "map callKey (filter isSwarmCall (events (snd ?run))) = [''POOL-1'', ''POOL-2'', ''POOL-3'']"
    by simp
  from t2 have "(\<exists>rest. smartKeys emptyPool = Ok None # rest) \<longrightarrow>
            fst ?run2 = Returned Null \<and> events (snd ?run2) = [GetSmartKey ''google'' ''gemini-2.5-flash'']"
    by blast
  with n have c: "fst ?run2 = Returned Null \<and> events (snd ?run2) = [GetSmartKey ''google'' ''gemini-2.5-flash'']"
    by blast
  from h1 h2 a b c show ?thesis by blast
qed

section \<open>The tool-call loop\<close>

text \<open>
  C6. In every request the trace holds at most one re-query (the second inference call
  that follows a recognised search tool call), and after it the request makes no further
  inference call and no further product search: a tool call in the second response is not
  honoured.
\<close>

theorem one_requery:
  assumes "generateReply cfg cmd bf ms t (fresh w) = (r, w')"
  shows "length (filter isRequery (events w')) \<le> 1
       \<and> list_all (\<lambda>e. \<not> isInference e \<and> \<not> isSearch e) (afterRequery (events w'))"
proof -
  consider (own) "enterPhase1 cfg cmd" | (managed) "\<not> enterPhase1 cfg cmd" "\<not> salesmanSelected cfg cmd"
    | (salesman) "salesmanSelected cfg cmd" by blast
  then show ?thesis
  proof cases
    case own
    then have "phase1 cfg cmd bf ms t (fresh w) = (r, w')" using assms generateReply_own_key by simp
    from phase1_facts [OF this] show ?thesis by auto
  next
    case managed
    then have "swarmLoop 3 cfg ms t (fresh w) = (r, w')" using assms generateReply_managed by simp
    from swarmLoop_trace [OF this] have "list_all swarmEvent (events w')" by auto
    then have "filter isRequery (events w') = []"
      using swarmEvent_kinds(1) by (auto simp: list_all_iff filter_empty_conv)
    then show ?thesis using no_requery_after by simp
  next
    case salesman
    obtain s w1 where p: "salesmanChatbotPath cfg ms t (fresh w) = (s, w1)" by fastforce
    note p' = salesmanChatbotPath_facts [OF p]
    let ?P = "OwnApiPost (orDefault (api_key cfg) []) (salesmanModel cfg) ms"
    have "\<exists>evs. events w' = ?P # evs \<and> list_all swarmEvent evs"
    proof (cases s)
      case (Done x)
      then have "w' = w1" using assms salesman p generateReply_salesman by simp
      then show ?thesis using p'(1) by simp
    next
      case Next
      then have "swarmLoop 3 cfg ms t w1 = (r, w')" using assms salesman p generateReply_salesman by simp
      from swarmLoop_trace [OF this] show ?thesis using p'(1) by auto
    next
      case Break
      then show ?thesis using p'(4) by simp
    qed
    then obtain evs where e: "events w' = ?P # evs" "list_all swarmEvent evs" by blast
    then have "filter isRequery (events w') = []"
      using swarmEvent_kinds(1) by (auto simp: list_all_iff filter_empty_conv)
    then show ?thesis using no_requery_after by simp
  qed
qed


theorem one_requery_witness:
  \<open>length (filter isRequery (events (snd (generateReply ownKeyPage None ''free-model'' greeting 0 (fresh twoToolCalls))))) = 1
   \<and> list_all (\<lambda>e. \<not> isInference e \<and> \<not> isSearch e)
        (afterRequery (events (snd (generateReply ownKeyPage None ''free-model'' greeting 0 (fresh twoToolCalls)))))
   \<and> filter isSearch (events (snd (generateReply ownKeyPage None ''free-model'' greeting 0 (fresh twoToolCalls))))
      = [SearchProducts ''owner-1'' (Str ''mango'') ''page-1'']
   \<and> fst (generateReply ownKeyPage None ''free-model'' greeting 0 (fresh twoToolCalls))
      = Returned (Obj [(''tool'', Str ''search_products''), (''query'', Str ''apple''), (''reply'', Undefined),
                       (''token_usage'', Num 18), (''model'', Str ''gemini-2.5-flash'')])\<close>
proof -
  let ?run = "generateReply ownKeyPage None ''free-model'' greeting 0 (fresh twoToolCalls)"
  have run: \<open>?run =
    (Returned (Obj [(''tool'', Str ''search_products''), (''query'', Str ''apple''), (''reply'', Undefined),
                    (''token_usage'', Num 18), (''model'', Str ''gemini-2.5-flash'')]),
     blank\<lparr>chatReplies := [answer ''{"reply":"never asked"}'' 5],
           searchResults := [Ok (Some [])],
           events :=
             [phase1Call ownKeyPage None ''free-model'' greeting ''AIzaSyUSERKEY'',
              RecordKeyUsage ''AIzaSyUSERKEY'' 10,
              SearchProducts ''owner-1'' (Str ''mango'') ''page-1'',
              ChatCreate Phase1Requery ''AIzaSyUSERKEY''
                ''https://generativelanguage.googleapis.com/v1beta/openai/'' ''gemini-2.5-flash''
                (greeting @ [\<lparr>role = ''assistant'', content = ''{"tool":"search_products","query":"mango"}''\<rparr>,
                             searchResultsMessage (Some [])])
                True,
              RecordKeyUsage ''AIzaSyUSERKEY'' 8]\<rparr>)\<close>
    by code_simp
  have h: "?run = (fst ?run, snd ?run)" by simp
  have s: "filter isSearch (events (snd ?run)) = [SearchProducts ''owner-1'' (Str ''mango'') ''page-1'']"
    by (simp add: run phase1Call_def)
  have q: "length (filter isRequery (events (snd ?run))) = 1"
    by (simp add: run phase1Call_def)
  from one_requery [OF h] s q run show ?thesis by simp
qed

section \<open>The gate of Phase 1\<close>





section \<open>The attempts of Phase 1\<close>




section \<open>The vision chain when every stage fails\<close>

text \<open>
  C8, as stated, fails: when the reference cannot be downloaded the chain does not reach
  its stages and the caller receives a plain string that tells the reason, not the
  sentinel with its zero usage.
\<close>

theorem vision_unreachable_counterexample:
  "processImageWithVision testEnv ''https://cdn.example.org/photo.jpg'' managedPage None
     (blank\<lparr>downloads := [Raise (newError ''timeout of 10000ms exceeded'')]\<rparr>)
   = (Returned (Str ''Image found but failed to download/decode. Reason: timeout of 10000ms exceeded''),
      blank\<lparr>events := [HttpGet ''https://cdn.example.org/photo.jpg'' [(''User-Agent'', ''Mozilla/5.0'')],
                         LogDebug ''[Vision] Pre-processing Failed: timeout of 10000ms exceeded'']\<rparr>)"
  by code_simp

text \<open>
  C8, amended. The vision chain never raises to the caller. When the download or the
  decoding of the reference fails it returns the string
  \<open>Image found but failed to download/decode. Reason: ...\<close> with the reason. When the
  image is at hand and every stage fails (each vision endpoint raises or answers without
  a text) it returns the fixed sentinel with usage 0, and the failures have accumulated:
  the last log entry lists one reason per stage, in the order of the stages, each under
  the label of its stage.
\<close>

theorem vision_chain_total:
  "(\<exists>v w'. processImageWithVision env imageUrl cfg opts w = (Returned v, w'))
   \<and> (\<forall>e w1. preprocessImage env imageUrl cfg w = (Raise e, w1) \<longrightarrow>
         fst (processImageWithVision env imageUrl cfg opts w)
           = Returned (Str (''Image found but failed to download/decode. Reason: '' @ errMessage e)))
   \<and> (\<forall>img w1. preprocessImage env imageUrl cfg w = (Ok img, w1) \<and> list_all failedPost (postReplies w) \<longrightarrow>
         fst (processImageWithVision env imageUrl cfg opts w)
           = Returned (Obj [(''text'', Str ''Image found but analysis unavailable due to technical errors.''),
                            (''usage'', Num 0)])
         \<and> (\<exists>msgs. length msgs = length (visionStages opts)
               \<and> last (events (snd (processImageWithVision env imageUrl cfg opts w)))
                   = LogDebug (''[Vision] FATAL: Image Analysis Failed. Reasons: ''
                               @ join (map2 trailEntry (visionStages opts) msgs) '' | '')))"
proof -
  obtain r1 w1 where p: "preprocessImage env imageUrl cfg w = (r1, w1)" by fastforce
  have total: "\<exists>v w'. processImageWithVision env imageUrl cfg opts w = (Returned v, w')"
    using p by (cases r1) (auto simp: processImageWithVision_def split: prod.splits)
  have fail: "fst (processImageWithVision env imageUrl cfg opts w)
           = Returned (Str (''Image found but failed to download/decode. Reason: '' @ errMessage e))"
    if "preprocessImage env imageUrl cfg w = (Raise e, w2)" for e w2
    using that by (simp add: processImageWithVision_def)
  have stages: "fst (processImageWithVision env imageUrl cfg opts w)
           = Returned (Obj [(''text'', Str ''Image found but analysis unavailable due to technical errors.''),
                            (''usage'', Num 0)])
         \<and> (\<exists>msgs. length msgs = length (visionStages opts)
               \<and> last (events (snd (processImageWithVision env imageUrl cfg opts w)))
                   = LogDebug (''[Vision] FATAL: Image Analysis Failed. Reasons: ''
                               @ join (map2 trailEntry (visionStages opts) msgs) '' | ''))"
    if h: "preprocessImage env imageUrl cfg w = (Ok img, w2)" "list_all failedPost (postReplies w)"
    for img w2
  proof -
    have pr: "postReplies w2 = postReplies w"
      using h(1)
      by (auto simp: preprocessImage_def httpGet_def Let_def logDebug_def emit_def
          split: if_splits list.splits outcome.splits)
    obtain v w3 where rs: "runStages (visionStages opts) (visionPrompt opts) [] w2 = (v, w3)"
      by fastforce
    have f: "list_all failedPost (postReplies w2)" using pr h(2) by simp
    from runStages_failed [OF f rs] obtain msgs where m: "v = unavailable"
      "length msgs = length (visionStages opts)"
      "last (events w3) = LogDebug (''[Vision] FATAL: Image Analysis Failed. Reasons: ''
                               @ join ([] @ map2 trailEntry (visionStages opts) msgs) '' | '')"
      by blast
    have run: "processImageWithVision env imageUrl cfg opts w = (Returned v, w3)"
      using h(1) rs by (cases img) (simp add: processImageWithVision_def)
    show ?thesis using run m by (auto simp: unavailable_def)
  qed
  from total fail stages show ?thesis by blast
qed

theorem vision_chain_total_witness:
  "preprocessImage testEnv inlineImage managedPage visionDown
     = (Ok (''iVBORw0KGgo='', ''image/png''), visionDown)
   \<and> list_all failedPost (postReplies visionDown)
   \<and> (\<exists>v w'. processImageWithVision testEnv inlineImage managedPage None visionDown = (Returned v, w'))
   \<and> fst (processImageWithVision testEnv inlineImage managedPage None visionDown)
       = Returned (Obj [(''text'', Str ''Image found but analysis unavailable due to technical errors.''),
                        (''usage'', Num 0)])
   \<and> (\<exists>msgs. length msgs = length (visionStages None)
         \<and> last (events (snd (processImageWithVision testEnv inlineImage managedPage None visionDown)))
             = LogDebug (''[Vision] FATAL: Image Analysis Failed. Reasons: ''
                         @ join (map2 trailEntry (visionStages None) msgs) '' | ''))"
proof -
  have pre: "preprocessImage testEnv inlineImage managedPage visionDown
     = (Ok (''iVBORw0KGgo='', ''image/png''), visionDown)"
    by code_simp
  have posts: "list_all failedPost (postReplies visionDown)"
    by code_simp
  note t = vision_chain_total [of testEnv inlineImage managedPage None visionDown]
  from t have total: "\<exists>v w'. processImageWithVision testEnv inlineImage managedPage None visionDown = (Returned v, w')"
    by blast
  from t pre posts have "fst (processImageWithVision testEnv inlineImage managedPage None visionDown)
       = Returned (Obj [(''text'', Str ''Image found but analysis unavailable due to technical errors.''),
                        (''usage'', Num 0)])
   \<and> (\<exists>msgs. length msgs = length (visionStages None)
         \<and> last (events (snd (processImageWithVision testEnv inlineImage managedPage None visionDown)))
             = LogDebug (''[Vision] FATAL: Image Analysis Failed. Reasons: ''
                         @ join (map2 trailEntry (visionStages None) msgs) '' | ''))"
    by blast
  with pre posts total show ?thesis by blast
qed

lemma vision_trail_example:
  "processImageWithVision testEnv inlineImage managedPage None visionDown
   = (Returned unavailable,
      blank\<lparr>events :=
        [GetSmartKey ''google'' ''gemini-2.5-flash'',
         VisionPost ''google'' ''gemini-2.5-flash'' ''POOL-1'' ''Describe this image in detail.'',
         LogDebug ''[Vision] Error 1: Service Unavailable'',
         GetSmartKey ''google'' ''gemini-2.5-flash-lite'',
         LogDebug ''[Vision] Error 2: No Key found for Gemini 2.5 Flash Lite'',
         GetSmartKey ''openrouter'' ''qwen/qwen-2.5-vl-7b-instruct:free'',
         GetSmartKey ''openrouter'' ''default'',
         LogDebug ''[Vision] Error 3: No Key found for OpenRouter'',
         LogDebug (''[Vision] FATAL: Image Analysis Failed. Reasons: ''
                   @ ''Gemini 2.5 Flash: Service Unavailable | ''
                   @ ''Gemini 2.5 Flash Lite: No Key found for Gemini 2.5 Flash Lite | ''
                   @ ''OpenRouter Qwen: No Key found for OpenRouter'')]\<rparr>)"
  by code_simp

section \<open>The invariant of the returned response\<close>




end
